theory Spec2Isabelle
  imports Main "HOL-Library.Multiset"
begin

section \<open>Party-Playlister: the session-aware server\<close>

text \<open>
  The server of \<^verbatim>\<open>src/unnamed/part_000\<close> (its first file, lines 1 to 359) proxies a music
  streaming API: \<^verbatim>\<open>getAccessToken\<close> resolves a bearer token for a session, and the
  handlers of \<^verbatim>\<open>/callback\<close>, \<^verbatim>\<open>/api/search-artists\<close> and \<^verbatim>\<open>/api/generate\<close> call the
  upstream API with it. Every \<^verbatim>\<open>fetch\<close> is modelled as a question to an upstream whose
  answer may depend on all the calls made before; the calls are recorded in a trace, so
  that "no upstream call" is the statement that the trace did not grow.
\<close>

subsection \<open>JavaScript values\<close>

text \<open>
  A value parsed from a JSON request body. \<^verbatim>\<open>undefined\<close> (an absent property) is \<open>None\<close>
  of \<open>json option\<close>. Numbers are the integers (fractions are outside the model), and
  strings are well-formed text (no lone surrogate, on which \<^verbatim>\<open>encodeURIComponent\<close> throws).
\<close>

datatype json =
    JNull
  | JBool bool
  | JNum int
  | JStr string
  | JArr "json list"
  | JObj "(string \<times> json) list"

text \<open>Truthiness, as \<^verbatim>\<open>if (v)\<close>, \<^verbatim>\<open>!v\<close>, \<^verbatim>\<open>a && b\<close> and \<^verbatim>\<open>a || b\<close> test it.\<close>

fun truthy :: "json option \<Rightarrow> bool" where
  "truthy None = False"
| "truthy (Some JNull) = False"
| "truthy (Some (JBool b)) = b"
| "truthy (Some (JNum n)) = (n \<noteq> 0)"
| "truthy (Some (JStr s)) = (s \<noteq> [])"
| "truthy (Some (JArr xs)) = True"
| "truthy (Some (JObj kvs)) = True"

fun truthyS :: "string option \<Rightarrow> bool" where
  "truthyS None = False"
| "truthyS (Some s) = (s \<noteq> [])"

fun truthyN :: "int option \<Rightarrow> bool" where
  "truthyN None = False"
| "truthyN (Some n) = (n \<noteq> 0)"

subsection \<open>Numbers\<close>

text \<open>
  A JavaScript number that holds an integer, an infinity or \<^verbatim>\<open>NaN\<close>. The numbers are
  IEEE doubles: an integer below \<open>2^53\<close> in size is held exactly, a larger one is
  rounded to the nearest double (to the even mantissa on a tie), and from \<open>2^1024\<close> on the
  result is an infinity.
\<close>

datatype number = Num int | PlusInfinity | MinusInfinity | NaN

function bitLength :: "int \<Rightarrow> nat" where
  "bitLength n = (if n \<le> 0 then 0 else Suc (bitLength (n div 2)))"
  by pat_completeness auto
termination
  by (relation "measure nat") auto

declare bitLength.simps [simp del]

text \<open>The size of the nearest double, for a size \<open>m\<close>: 53 bits of mantissa are kept.\<close>

definition nearest :: "int \<Rightarrow> int" where
  "nearest m =
     (if m < 9007199254740992 then m
      else (let e = bitLength m - 53; q = m div 2 ^ e; r = m mod 2 ^ e; h = 2 ^ (e - 1)
            in (if r < h \<or> (r = h \<and> even q) then q else q + 1) * 2 ^ e))"

definition toNumber :: "int \<Rightarrow> number" where
  "toNumber i =
     (let m = nearest \<bar>i\<bar> in
      if 2 ^ 1024 \<le> m then (if i < 0 then MinusInfinity else PlusInfinity)
      else Num (if i < 0 then - m else m))"

text \<open>\<^verbatim>\<open>x * 1000\<close>, and \<^verbatim>\<open>Date.now() + x\<close> for a reading of the clock.\<close>

fun times1000 :: "number \<Rightarrow> number" where
  "times1000 (Num a) = toNumber (a * 1000)"
| "times1000 PlusInfinity = PlusInfinity"
| "times1000 MinusInfinity = MinusInfinity"
| "times1000 NaN = NaN"

fun afterNow :: "nat \<Rightarrow> number \<Rightarrow> number" where
  "afterNow now (Num a) = toNumber (int now + a)"
| "afterNow now PlusInfinity = PlusInfinity"
| "afterNow now MinusInfinity = MinusInfinity"
| "afterNow now NaN = NaN"

text \<open>
  Lines 66 and 182: \<^verbatim>\<open>Date.now() + (data.expires_in * 1000)\<close>. A missing \<^verbatim>\<open>expires_in\<close> is
  \<^verbatim>\<open>undefined\<close>, whose product is \<^verbatim>\<open>NaN\<close>.
\<close>

definition expiry :: "nat \<Rightarrow> int option \<Rightarrow> number" where
  "expiry now ein =
     afterNow now (case ein of None \<Rightarrow> NaN | Some n \<Rightarrow> times1000 (toNumber n))"

text \<open>Truthiness of a number that may be absent, and \<^verbatim>\<open>Date.now() < x\<close>.\<close>

fun truthyNum :: "number option \<Rightarrow> bool" where
  "truthyNum None = False"
| "truthyNum (Some (Num n)) = (n \<noteq> 0)"
| "truthyNum (Some PlusInfinity) = True"
| "truthyNum (Some MinusInfinity) = True"
| "truthyNum (Some NaN) = False"

fun before :: "nat \<Rightarrow> number \<Rightarrow> bool" where
  "before now (Num e) = (int now < e)"
| "before now PlusInfinity = True"
| "before now MinusInfinity = False"
| "before now NaN = False"

subsection \<open>Text\<close>

text \<open>The decimal digits of an integer (of a natural number, for \<open>digitsOf\<close>).\<close>

function digitsOf :: "int \<Rightarrow> string" where
  "digitsOf n =
     (if n < 10 then [''0123456789'' ! nat n]
      else digitsOf (n div 10) @ [''0123456789'' ! nat (n mod 10)])"
  by pat_completeness auto
termination
  by (relation "measure nat") auto

declare digitsOf.simps [simp del]

definition showInt :: "int \<Rightarrow> string" where
  "showInt i = (if i < 0 then CHR ''-'' # digitsOf (- i) else digitsOf i)"

fun joinWith :: "string \<Rightarrow> string list \<Rightarrow> string" where
  "joinWith sep [] = []"
| "joinWith sep [x] = x"
| "joinWith sep (x # y # ys) = x @ sep @ joinWith sep (y # ys)"

text \<open>
  What the engine writes, where the source does not: \<open>number_text\<close> is the text of a
  number of size \<open>2^53\<close> or more in a template literal (the shortest digits that read
  back as the same double, in exponent notation from \<open>10^21\<close>), and \<open>type_error_text\<close>
  is the message of the \<^verbatim>\<open>TypeError\<close> raised at the named place.
\<close>

record engine =
  number_text :: "int \<Rightarrow> string"
  type_error_text :: "string \<Rightarrow> string"

text \<open>A number in a template literal: below \<open>2^53\<close> in size, its decimal digits.\<close>

definition numberText :: "'a engine_scheme \<Rightarrow> int \<Rightarrow> string" where
  "numberText w i = (if \<bar>i\<bar> < 9007199254740992 then showInt i else number_text w i)"

text \<open>
  \<^verbatim>\<open>`${v}`\<close>: a string is itself, an array is its elements joined by commas (with
  \<^verbatim>\<open>null\<close> elements empty), an object is \<^verbatim>\<open>[object Object]\<close>.
\<close>

fun toStr :: "'a engine_scheme \<Rightarrow> json \<Rightarrow> string" where
  "toStr w JNull = ''null''"
| "toStr w (JBool b) = (if b then ''true'' else ''false'')"
| "toStr w (JNum n) = numberText w n"
| "toStr w (JStr s) = s"
| "toStr w (JArr xs) = joinWith '','' (map (\<lambda>x. if x = JNull then [] else toStr w x) xs)"
| "toStr w (JObj kvs) = ''[object Object]''"

text \<open>A template literal renders \<^verbatim>\<open>undefined\<close> as the word.\<close>

fun templ :: "string option \<Rightarrow> string" where
  "templ None = ''undefined''"
| "templ (Some s) = s"

subsection \<open>Configuration, session, upstream\<close>

record config =
  CLIENT_ID :: string
  CLIENT_SECRET :: string
  REDIRECT_URI :: string
  SERVICE_REFRESH_TOKEN :: "string option"

text \<open>
  The fields the server keeps in \<^verbatim>\<open>req.session\<close>; \<open>None\<close> is \<^verbatim>\<open>undefined\<close>.
  \<open>expiresAt\<close> is in milliseconds.
\<close>

record session =
  accessToken :: "string option"
  refreshToken :: "string option"
  expiresAt :: "number option"
  state :: "string option"

datatype mode = User | Demo

text \<open>
  What is thrown: \<^verbatim>\<open>new Error(message)\<close>, the error of a fetch that rejects or of a body
  that does not parse (with its message), and the \<^verbatim>\<open>TypeError\<close> of reading a property of
  \<^verbatim>\<open>null\<close> or \<^verbatim>\<open>undefined\<close> or of spreading what is not iterable (with the name of the
  property).
\<close>

datatype js_error = Error string | FetchError string | TypeError string

fun message :: "'a engine_scheme \<Rightarrow> js_error \<Rightarrow> string" where
  "message w (Error m) = m"
| "message w (FetchError m) = m"
| "message w (TypeError p) = type_error_text w p"

text \<open>
  What \<^verbatim>\<open>await fetch(...)\<close> and \<^verbatim>\<open>await response.json()\<close> give: the fetch rejects, or it
  resolves to a response with its \<^verbatim>\<open>ok\<close> flag, whose body does not parse as JSON, is the
  JSON \<^verbatim>\<open>null\<close>, or is another JSON value, given by the properties the server reads (all
  absent for a value that is not an object).
\<close>

datatype 'a body = Unparsable string | NullBody | Parsed 'a

datatype 'a reply = Rejected string | Response bool "'a body"

datatype grant =
    RefreshTokenGrant string
  | AuthorizationCodeGrant string string

text \<open>
  An element of \<^verbatim>\<open>tracks.items\<close>: \<^verbatim>\<open>null\<close>, or a value with its \<^verbatim>\<open>uri\<close> property, which
  may be absent.
\<close>

datatype item = NoItem | Item "string option"

text \<open>
  The upstream calls of the server: the token endpoint (with the client id and secret
  of its Basic authorization and the form body), and the API calls with the bearer
  token they carry.
\<close>

datatype call =
    TokenRequest string string grant
  | ArtistSearch "string option" string nat
  | TrackSearch "string option" string nat
  | MeRequest "string option"
  | CreatePlaylist "string option" "string option" json bool
  | AddTracks "string option" "string option" "string option list"

text \<open>
  The bodies of the upstream's answers, every property optional. For \<open>artists\<close> and
  \<open>tracks\<close> the outer \<open>None\<close> is a missing (or falsy) property and the inner one is a
  value with no \<^verbatim>\<open>items\<close> array; for \<open>external_urls\<close> the outer \<open>None\<close> is a missing
  property and the inner one a missing \<^verbatim>\<open>spotify\<close>.
\<close>

record token_data =
  access_token :: "string option"
  refresh_token :: "string option"
  expires_in :: "int option"
  error_description :: "string option"
  error :: "string option"

record artists_data =
  artists_page :: "json list option option"
  artists_error_message :: "string option"

record tracks_data =
  tracks :: "item list option option"

record me_data =
  me_id :: "string option"

record playlist_data =
  playlist_id :: "string option"
  playlist_name :: "string option"
  external_urls :: "string option option"

text \<open>
  The world outside the source: the engine, each endpoint answering a call given the
  calls made so far, the clock read after those calls, and \<open>shuffle\<close>, which is what
  \<^verbatim>\<open>sort(() => 0.5 - Math.random())\<close> makes of an array.
\<close>

record world = engine +
  token_api :: "call list \<Rightarrow> call \<Rightarrow> token_data reply"
  artist_api :: "call list \<Rightarrow> call \<Rightarrow> artists_data reply"
  track_api :: "call list \<Rightarrow> call \<Rightarrow> tracks_data reply"
  me_api :: "call list \<Rightarrow> call \<Rightarrow> me_data reply"
  playlist_api :: "call list \<Rightarrow> call \<Rightarrow> playlist_data reply"
  add_api :: "call list \<Rightarrow> call \<Rightarrow> unit reply"
  clock :: "call list \<Rightarrow> nat"
  shuffle :: "item list \<Rightarrow> item list"

subsection \<open>getAccessToken\<close>

type_synonym token_result = "js_error + (string option \<times> mode)"

text \<open>Line 43: the session's own token is usable.\<close>

definition stillValid :: "nat \<Rightarrow> session \<Rightarrow> bool" where
  "stillValid now s =
     (truthyS (accessToken s) \<and> truthyNum (expiresAt s) \<and>
      (case expiresAt s of None \<Rightarrow> False | Some e \<Rightarrow> before now e))"

text \<open>
  The fetch of lines 50 to 60 and of lines 76 to 86: a POST to the token endpoint with the
  Basic authorization of the client and the form \<^verbatim>\<open>grant_type=refresh_token\<close>.
\<close>

definition refreshRequest :: "config \<Rightarrow> string \<Rightarrow> call" where
  "refreshRequest cfg rt = TokenRequest (CLIENT_ID cfg) (CLIENT_SECRET cfg) (RefreshTokenGrant rt)"

text \<open>
  Lines 74 to 97: the service token, or no authentication at all. On a \<^verbatim>\<open>null\<close> body the
  first property read throws.
\<close>

definition serviceFallback :: "config \<Rightarrow> world \<Rightarrow> call list \<Rightarrow> token_result \<times> call list" where
  "serviceFallback cfg w tr =
     (case SERVICE_REFRESH_TOKEN cfg of
        None \<Rightarrow>
          (Inl (Error ''No authentication available. Please log in or configure SERVICE_REFRESH_TOKEN.''), tr)
      | Some srt \<Rightarrow>
          if srt = [] then
            (Inl (Error ''No authentication available. Please log in or configure SERVICE_REFRESH_TOKEN.''), tr)
          else
            (let c = refreshRequest cfg srt in
             case token_api w tr c of
               Rejected m \<Rightarrow> (Inl (FetchError m), tr @ [c])
             | Response ok b \<Rightarrow>
                 (case b of
                    Unparsable m \<Rightarrow> (Inl (FetchError m), tr @ [c])
                  | NullBody \<Rightarrow>
                      (Inl (TypeError (if ok then ''access_token'' else ''error_description'')),
                       tr @ [c])
                  | Parsed d \<Rightarrow>
                      if ok then (Inr (access_token d, Demo), tr @ [c])
                      else
                        (Inl (Error (''Spotify API error: '' @
                            templ (if truthyS (error_description d) then error_description d
                                   else error d))),
                         tr @ [c]))))"

text \<open>
  Lines 48 to 72: the refresh of the user's token. \<open>None\<close> is the fall through to the
  service token (the refresh token is missing, the fetch, the parse or a property read
  failed and was caught, or the response was not ok).
\<close>

definition userRefresh ::
  "config \<Rightarrow> world \<Rightarrow> session \<Rightarrow> call list \<Rightarrow> ((string option \<times> mode) \<times> session) option \<times> call list" where
  "userRefresh cfg w s tr =
     (case refreshToken s of
        None \<Rightarrow> (None, tr)
      | Some rt \<Rightarrow>
          if rt = [] then (None, tr)
          else
            (let c = refreshRequest cfg rt in
             case token_api w tr c of
               Rejected m \<Rightarrow> (None, tr @ [c])
             | Response ok b \<Rightarrow>
                 (case b of
                    Unparsable m \<Rightarrow> (None, tr @ [c])
                  | NullBody \<Rightarrow> (None, tr @ [c])
                  | Parsed d \<Rightarrow>
                      if ok then
                        (Some ((access_token d, User),
                               s\<lparr>accessToken := access_token d,
                                 expiresAt := Some (expiry (clock w (tr @ [c])) (expires_in d))\<rparr>),
                         tr @ [c])
                      else (None, tr @ [c]))))"

definition getAccessToken ::
  "config \<Rightarrow> world \<Rightarrow> session option \<Rightarrow> call list \<Rightarrow> token_result \<times> session option \<times> call list" where
  "getAccessToken cfg w so tr =
     (case so of
        None \<Rightarrow> (case serviceFallback cfg w tr of (r, tr') \<Rightarrow> (r, None, tr'))
      | Some s \<Rightarrow>
          if stillValid (clock w tr) s then (Inr (accessToken s, User), Some s, tr)
          else
            (case userRefresh cfg w s tr of
               (Some (r, s'), tr') \<Rightarrow> (Inr r, Some s', tr')
             | (None, tr') \<Rightarrow>
                 (case serviceFallback cfg w tr' of (r, tr'') \<Rightarrow> (r, Some s, tr''))))"

subsection \<open>The responses of the handlers\<close>

datatype page =
    AuthorizationErrorPage string
  | NoCodePage
  | StateMismatchPage
  | SuccessPage
  | ErrorPage string

text \<open>
  The JSON answers: an error, the artists found (\<open>None\<close> when the upstream's page has no
  \<^verbatim>\<open>items\<close>), and the playlist made.
\<close>

datatype payload =
    ErrorBody string
  | ArtistsBody "json list option" mode
  | PlaylistBody "string option" "string option" mode

text \<open>\<^verbatim>\<open>res.status(n).send(html)\<close> and \<^verbatim>\<open>res.status(n).json(obj)\<close>; the status is 200 when not set.\<close>

datatype http_response = Html nat page | Json nat payload

fun status :: "http_response \<Rightarrow> nat" where
  "status (Html n p) = n"
| "status (Json n p) = n"

subsection \<open>GET /callback\<close>

record callback_query =
  q_code :: "string option"
  q_state :: "string option"
  q_error :: "string option"

text \<open>\<^verbatim>\<open>req.query.x || null\<close>: a missing or empty parameter is \<^verbatim>\<open>null\<close>.\<close>

fun orNull :: "string option \<Rightarrow> string option" where
  "orNull None = None"
| "orNull (Some s) = (if s = [] then None else Some s)"

text \<open>Lines 156 to 207: the exchange of the code, and the tokens stored in the session.\<close>

definition exchangeCode ::
  "config \<Rightarrow> world \<Rightarrow> string \<Rightarrow> session \<Rightarrow> call list \<Rightarrow> http_response \<times> session \<times> call list" where
  "exchangeCode cfg w cd s tr =
     (let c = TokenRequest (CLIENT_ID cfg) (CLIENT_SECRET cfg)
                (AuthorizationCodeGrant cd (REDIRECT_URI cfg)) in
      case token_api w tr c of
        Rejected m \<Rightarrow> (Html 500 (ErrorPage m), s, tr @ [c])
      | Response ok b \<Rightarrow>
          (case b of
             Unparsable m \<Rightarrow> (Html 500 (ErrorPage m), s, tr @ [c])
           | NullBody \<Rightarrow>
               (Html 500 (ErrorPage (message w
                  (TypeError (if ok then ''access_token'' else ''error_description'')))),
                s, tr @ [c])
           | Parsed d \<Rightarrow>
               if ok then
                 (Html 200 SuccessPage,
                  s\<lparr>accessToken := access_token d,
                    refreshToken := refresh_token d,
                    expiresAt := Some (expiry (clock w (tr @ [c])) (expires_in d)),
                    state := None\<rparr>,
                  tr @ [c])
               else
                 (Html 500 (ErrorPage (if truthyS (error_description d)
                                       then templ (error_description d)
                                       else ''Failed to get tokens'')),
                  s, tr @ [c])))"

definition callback ::
  "config \<Rightarrow> world \<Rightarrow> callback_query \<Rightarrow> session \<Rightarrow> call list \<Rightarrow> http_response \<times> session \<times> call list" where
  "callback cfg w q s tr =
     (case orNull (q_error q) of
        Some e \<Rightarrow> (Html 400 (AuthorizationErrorPage e), s, tr)
      | None \<Rightarrow>
          (case orNull (q_code q) of
             None \<Rightarrow> (Html 400 NoCodePage, s, tr)
           | Some cd \<Rightarrow>
               if truthyS (state s) then
                 (if orNull (q_state q) = state s then exchangeCode cfg w cd s tr
                  else (Html 400 StateMismatchPage, s, tr))
               else exchangeCode cfg w cd s tr))"

subsection \<open>GET /api/search-artists\<close>

definition searchArtists ::
  "config \<Rightarrow> world \<Rightarrow> string option \<Rightarrow> session option \<Rightarrow> call list
     \<Rightarrow> http_response \<times> session option \<times> call list" where
  "searchArtists cfg w q so tr =
     (case getAccessToken cfg w so tr of
        (Inl e, so', tr') \<Rightarrow> (Json 500 (ErrorBody (message w e)), so', tr')
      | (Inr (token, md), so', tr') \<Rightarrow>
          if truthyS q then
            (let c = ArtistSearch token (templ q) 5 in
             case artist_api w tr' c of
               Rejected m \<Rightarrow> (Json 500 (ErrorBody m), so', tr' @ [c])
             | Response ok b \<Rightarrow>
                 (case b of
                    Unparsable m \<Rightarrow> (Json 500 (ErrorBody m), so', tr' @ [c])
                  | NullBody \<Rightarrow>
                      (Json 500 (ErrorBody (message w
                         (TypeError (if ok then ''artists'' else ''error'')))),
                       so', tr' @ [c])
                  | Parsed d \<Rightarrow>
                      if ok then
                        (Json 200 (ArtistsBody
                            (case artists_page d of None \<Rightarrow> Some [] | Some its \<Rightarrow> its) md),
                         so', tr' @ [c])
                      else
                        (Json 500 (ErrorBody (if truthyS (artists_error_message d)
                                              then templ (artists_error_message d)
                                              else ''Spotify API error'')),
                         so', tr' @ [c])))
          else
            (Json 400 (ErrorBody (''Query parameter '' @ [CHR 0x22] @ ''q'' @ [CHR 0x22] @ '' is required'')),
             so', tr'))"

subsection \<open>POST /api/generate\<close>

text \<open>
  The request body, after \<^verbatim>\<open>express.json()\<close>. \<open>name\<close> and \<open>artists\<close> are any JSON
  value; \<open>songCount\<close>, \<open>startYear\<close> and \<open>endYear\<close> are compared and sliced with as
  numbers, and are taken at the type the data model gives them: absent, or an integer.
\<close>

record generate_body =
  name :: "json option"
  artists :: "json option"
  songCount :: "int option"
  startYear :: "int option"
  endYear :: "int option"

text \<open>Line 266: \<^verbatim>\<open>!name || !artists || !Array.isArray(artists) || artists.length === 0\<close>.\<close>

fun isArray :: "json option \<Rightarrow> bool" where
  "isArray (Some (JArr xs)) = True"
| "isArray v = False"

fun elements :: "json option \<Rightarrow> json list" where
  "elements (Some (JArr xs)) = xs"
| "elements v = []"

definition missingFields :: "generate_body \<Rightarrow> bool" where
  "missingFields b =
     (\<not> truthy (name b) \<or> \<not> truthy (artists b) \<or> \<not> isArray (artists b) \<or>
      length (elements (artists b)) = 0)"

text \<open>Line 270: \<^verbatim>\<open>songCount && (songCount < 1 || songCount > 100)\<close>.\<close>

definition badSongCount :: "int option \<Rightarrow> bool" where
  "badSongCount sc = (truthyN sc \<and> (case sc of None \<Rightarrow> False | Some n \<Rightarrow> n < 1 \<or> n > 100))"

text \<open>Line 279: \<^verbatim>\<open>(startYear && endYear) ? ` year:${startYear}-${endYear}` : ""\<close>.\<close>

definition yearFilter :: "'a engine_scheme \<Rightarrow> int option \<Rightarrow> int option \<Rightarrow> string" where
  "yearFilter w sy ey =
     (if truthyN sy \<and> truthyN ey
      then (case (sy, ey) of
              (Some a, Some b) \<Rightarrow> '' year:'' @ numberText w a @ ''-'' @ numberText w b
            | _ \<Rightarrow> [])
      else [])"

text \<open>Line 280: \<^verbatim>\<open>`artist:"${artist}"${yearFilter}`\<close>.\<close>

definition searchQuery :: "'a engine_scheme \<Rightarrow> json \<Rightarrow> int option \<Rightarrow> int option \<Rightarrow> string" where
  "searchQuery w artist sy ey =
     ''artist:'' @ [CHR 0x22] @ toStr w artist @ [CHR 0x22] @ yearFilter w sy ey"

text \<open>
  Lines 277 to 294: the loop over the artists. A fetch that rejects or a body that does
  not parse throws out of the loop (line 286 comes before the test of line 288); a
  response that is not ok is skipped; on an ok response a \<^verbatim>\<open>null\<close> body throws at
  \<^verbatim>\<open>searchData.tracks\<close>, and a \<^verbatim>\<open>tracks\<close> with no \<^verbatim>\<open>items\<close> array throws at the spread of
  line 293.
\<close>

fun searchLoop ::
  "world \<Rightarrow> string option \<Rightarrow> int option \<Rightarrow> int option \<Rightarrow> json list \<Rightarrow> item list \<Rightarrow> call list
     \<Rightarrow> (js_error + item list) \<times> call list" where
  "searchLoop w token sy ey [] allTracks tr = (Inr allTracks, tr)"
| "searchLoop w token sy ey (artist # rest) allTracks tr =
     (let c = TrackSearch token (searchQuery w artist sy ey) 15 in
      case track_api w tr c of
        Rejected m \<Rightarrow> (Inl (FetchError m), tr @ [c])
      | Response ok b \<Rightarrow>
          (case b of
             Unparsable m \<Rightarrow> (Inl (FetchError m), tr @ [c])
           | NullBody \<Rightarrow>
               if ok then (Inl (TypeError ''tracks''), tr @ [c])
               else searchLoop w token sy ey rest allTracks (tr @ [c])
           | Parsed d \<Rightarrow>
               if ok then
                 (case tracks d of
                    None \<Rightarrow> searchLoop w token sy ey rest allTracks (tr @ [c])
                  | Some None \<Rightarrow> (Inl (TypeError ''items''), tr @ [c])
                  | Some (Some items) \<Rightarrow>
                      searchLoop w token sy ey rest (allTracks @ items) (tr @ [c]))
               else searchLoop w token sy ey rest allTracks (tr @ [c])))"

text \<open>\<^verbatim>\<open>xs.slice(0, end)\<close>: a negative end counts from the end of the array.\<close>

definition slice0 :: "int \<Rightarrow> 'a list \<Rightarrow> 'a list" where
  "slice0 e xs =
     (if e < 0 then take (nat (max (int (length xs) + e) 0)) xs
      else take (nat (min e (int (length xs)))) xs)"

text \<open>\<^verbatim>\<open>songCount || 20\<close>: 20 for a missing count and for 0.\<close>

definition countOrDefault :: "int option \<Rightarrow> int" where
  "countOrDefault sc = (if truthyN sc then (case sc of None \<Rightarrow> 20 | Some n \<Rightarrow> n) else 20)"

fun uriOf :: "item \<Rightarrow> string option" where
  "uriOf (Item u) = u"
| "uriOf NoItem = None"

text \<open>
  Lines 296 to 299: the random sort, the slice, and \<^verbatim>\<open>t.uri\<close> of each element kept,
  which throws on a \<^verbatim>\<open>null\<close> element.
\<close>

definition selectedUris :: "world \<Rightarrow> int option \<Rightarrow> item list \<Rightarrow> js_error + string option list" where
  "selectedUris w sc allTracks =
     (let chosen = slice0 (countOrDefault sc) (shuffle w allTracks) in
      if NoItem \<in> set chosen then Inl (TypeError ''uri'') else Inr (map uriOf chosen))"

text \<open>Line 321: \<^verbatim>\<open>name || 'New Vibe Playlist'\<close>.\<close>

fun nameOrDefault :: "json option \<Rightarrow> json" where
  "nameOrDefault None = JStr ''New Vibe Playlist''"
| "nameOrDefault (Some j) = (if truthy (Some j) then j else JStr ''New Vibe Playlist'')"

text \<open>
  Lines 305 to 344: the profile, the new playlist, the tracks added to it, and the
  body of the answer. The response of the last fetch is not looked at. A \<^verbatim>\<open>null\<close> body
  of an ok response throws where its \<^verbatim>\<open>id\<close> is read for the next address.
\<close>

definition createPlaylist ::
  "world \<Rightarrow> string option \<Rightarrow> mode \<Rightarrow> json option \<Rightarrow> string option list \<Rightarrow> call list
     \<Rightarrow> (js_error + payload) \<times> call list" where
  "createPlaylist w token md nm uris tr =
     (let c1 = MeRequest token in
      case me_api w tr c1 of
        Rejected m \<Rightarrow> (Inl (FetchError m), tr @ [c1])
      | Response ok1 b1 \<Rightarrow>
          (case b1 of
             Unparsable m \<Rightarrow> (Inl (FetchError m), tr @ [c1])
           | NullBody \<Rightarrow>
               (Inl (if ok1 then TypeError ''id'' else Error ''Failed to get user information''),
                tr @ [c1])
           | Parsed meData \<Rightarrow>
               if ok1 then
                 (let c2 = CreatePlaylist token (me_id meData) (nameOrDefault nm) True in
                  case playlist_api w (tr @ [c1]) c2 of
                    Rejected m \<Rightarrow> (Inl (FetchError m), tr @ [c1, c2])
                  | Response ok2 b2 \<Rightarrow>
                      (case b2 of
                         Unparsable m \<Rightarrow> (Inl (FetchError m), tr @ [c1, c2])
                       | NullBody \<Rightarrow>
                           (Inl (if ok2 then TypeError ''id''
                                 else Error ''Failed to create playlist''),
                            tr @ [c1, c2])
                       | Parsed playlistData \<Rightarrow>
                           if ok2 then
                             (let c3 = AddTracks token (playlist_id playlistData) uris in
                              case add_api w (tr @ [c1, c2]) c3 of
                                Rejected m \<Rightarrow> (Inl (FetchError m), tr @ [c1, c2, c3])
                              | Response ok3 b3 \<Rightarrow>
                                  (case external_urls playlistData of
                                     None \<Rightarrow> (Inl (TypeError ''spotify''), tr @ [c1, c2, c3])
                                   | Some url \<Rightarrow>
                                       (Inr (PlaylistBody url (playlist_name playlistData) md),
                                        tr @ [c1, c2, c3])))
                           else (Inl (Error ''Failed to create playlist''), tr @ [c1, c2])))
               else (Inl (Error ''Failed to get user information''), tr @ [c1])))"

definition failed :: "world \<Rightarrow> js_error \<Rightarrow> http_response" where
  "failed w e = Json 500 (ErrorBody (''Failed to generate playlist: '' @ message w e))"

definition generate ::
  "config \<Rightarrow> world \<Rightarrow> generate_body \<Rightarrow> session option \<Rightarrow> call list
     \<Rightarrow> http_response \<times> session option \<times> call list" where
  "generate cfg w b so tr =
     (if missingFields b then
        (Json 400 (ErrorBody ''Invalid request: name and artists are required''), so, tr)
      else if badSongCount (songCount b) then
        (Json 400 (ErrorBody ''Song count must be between 1 and 100''), so, tr)
      else
        (case getAccessToken cfg w so tr of
           (Inl e, so', tr1) \<Rightarrow> (failed w e, so', tr1)
         | (Inr (token, md), so', tr1) \<Rightarrow>
             (case searchLoop w token (startYear b) (endYear b) (elements (artists b)) [] tr1 of
                (Inl e, tr2) \<Rightarrow> (failed w e, so', tr2)
              | (Inr allTracks, tr2) \<Rightarrow>
                  (case selectedUris w (songCount b) allTracks of
                     Inl e \<Rightarrow> (failed w e, so', tr2)
                   | Inr uris \<Rightarrow>
                       if uris = [] then
                         (Json 404 (ErrorBody ''No songs found for these artists/years.''), so', tr2)
                       else
                         (case createPlaylist w token md (name b) uris tr2 of
                            (Inl e, tr3) \<Rightarrow> (failed w e, so', tr3)
                          | (Inr p, tr3) \<Rightarrow> (Json 200 p, so', tr3))))))"

subsection \<open>Concrete configurations, worlds and sessions\<close>

text \<open>
  Inputs on which the theorems below are run: a configuration with a service token and
  one without, a session that has never logged in, and an upstream that answers every
  call with success except the insertion of tracks, which it refuses. Every search
  finds the same one track.
\<close>

definition cfgDemo :: config where
  "cfgDemo = \<lparr>CLIENT_ID = ''id'', CLIENT_SECRET = ''secret'',
     REDIRECT_URI = ''http://127.0.0.1:5500/callback'',
     SERVICE_REFRESH_TOKEN = Some ''service''\<rparr>"

definition cfgNoDemo :: config where
  "cfgNoDemo = \<lparr>CLIENT_ID = ''id'', CLIENT_SECRET = ''secret'',
     REDIRECT_URI = ''http://127.0.0.1:5500/callback'',
     SERVICE_REFRESH_TOKEN = None\<rparr>"

definition newSession :: session where
  "newSession = \<lparr>accessToken = None, refreshToken = None, expiresAt = None, state = None\<rparr>"

definition okToken :: token_data where
  "okToken = \<lparr>access_token = Some ''fresh'', refresh_token = Some ''again'',
     expires_in = Some 3600, error_description = None, error = None\<rparr>"

definition calmWorld :: world where
  "calmWorld = \<lparr>
     number_text = showInt,
     type_error_text = (\<lambda>p. ''Cannot read properties of undefined (reading '' @ p @ '')''),
     token_api = (\<lambda>h c. Response True (Parsed okToken)),
     artist_api = (\<lambda>h c. Response True
        (Parsed \<lparr>artists_page = Some (Some []), artists_error_message = None\<rparr>)),
     track_api = (\<lambda>h c. Response True
        (Parsed \<lparr>tracks = Some (Some [Item (Some ''spotify:track:1'')])\<rparr>)),
     me_api = (\<lambda>h c. Response True (Parsed \<lparr>me_id = Some ''me''\<rparr>)),
     playlist_api = (\<lambda>h c. Response True
        (Parsed \<lparr>playlist_id = Some ''p1'', playlist_name = Some ''Road Trip'',
                 external_urls = Some (Some ''https://open.spotify.com/playlist/p1'')\<rparr>)),
     add_api = (\<lambda>h c. Response False (Parsed ())),
     clock = (\<lambda>h. 1000),
     shuffle = rev\<rparr>"

text \<open>An upstream that refuses every call with a JSON error body.\<close>

definition sternWorld :: world where
  "sternWorld = calmWorld\<lparr>
     token_api := (\<lambda>h c. Response False
        (Parsed \<lparr>access_token = None, refresh_token = None, expires_in = None,
                 error_description = Some ''Refresh token revoked'', error = Some ''invalid_grant''\<rparr>)),
     artist_api := (\<lambda>h c. Response False
        (Parsed \<lparr>artists_page = None, artists_error_message = Some ''Bad token''\<rparr>)),
     track_api := (\<lambda>h c. Response False (Parsed \<lparr>tracks = None\<rparr>)),
     me_api := (\<lambda>h c. Response False (Parsed \<lparr>me_id = None\<rparr>)),
     playlist_api := (\<lambda>h c. Response False
        (Parsed \<lparr>playlist_id = None, playlist_name = None, external_urls = None\<rparr>))\<rparr>"

text \<open>An upstream whose track search answers with an error page that is not JSON.\<close>

definition garbledWorld :: world where
  "garbledWorld =
     calmWorld\<lparr>track_api := (\<lambda>h c. Response False (Unparsable ''invalid json response body''))\<rparr>"

text \<open>
  An upstream whose track search finds two tracks for Queen, refuses the search for
  Abba with a JSON error body, and finds for every other artist one of the tracks of
  Queen again.
\<close>

definition queenQuery :: string where
  "queenQuery = ''artist:'' @ [CHR 0x22] @ ''Queen'' @ [CHR 0x22]"

definition abbaQuery :: string where
  "abbaQuery = ''artist:'' @ [CHR 0x22] @ ''Abba'' @ [CHR 0x22]"

definition variedWorld :: world where
  "variedWorld =
     calmWorld\<lparr>
       track_api := (\<lambda>h c.
         if c = TrackSearch (Some ''fresh'') queenQuery 15 then
           Response True (Parsed \<lparr>tracks = Some (Some [Item (Some ''spotify:track:1''),
                                                          Item (Some ''spotify:track:2'')])\<rparr>)
         else if c = TrackSearch (Some ''fresh'') abbaQuery 15 then
           Response False (Parsed \<lparr>tracks = None\<rparr>)
         else Response True (Parsed \<lparr>tracks = Some (Some [Item (Some ''spotify:track:2'')])\<rparr>)),
       add_api := (\<lambda>h c. Response True (Parsed ()))\<rparr>"

definition kissQuery :: string where
  "kissQuery = ''artist:'' @ [CHR 0x22] @ ''Kiss'' @ [CHR 0x22]"

definition roadTrip :: generate_body where
  "roadTrip = \<lparr>name = Some (JStr ''Road Trip''), artists = Some (JArr [JStr ''Queen'']),
     songCount = Some 5, startYear = None, endYear = None\<rparr>"

definition twoArtists :: generate_body where
  "twoArtists = \<lparr>name = Some (JStr ''Road Trip''),
     artists = Some (JArr [JStr ''Queen'', JStr ''Abba'']),
     songCount = Some 1, startYear = Some 1975, endYear = Some 1980\<rparr>"

definition threeArtists :: generate_body where
  "threeArtists = \<lparr>name = Some (JStr ''Road Trip''),
     artists = Some (JArr [JStr ''Queen'', JStr ''Abba'', JStr ''Kiss'']),
     songCount = Some 2, startYear = None, endYear = None\<rparr>"

subsection \<open>Kinds of calls\<close>

text \<open>Which calls each part of a request can add to the trace.\<close>

fun isTokenRequest :: "call \<Rightarrow> bool" where
  "isTokenRequest (TokenRequest a b g) = True"
| "isTokenRequest c = False"

fun isTrackSearch :: "call \<Rightarrow> bool" where
  "isTrackSearch (TrackSearch t q n) = True"
| "isTrackSearch c = False"

fun fromCreate :: "json \<Rightarrow> string option list \<Rightarrow> call \<Rightarrow> bool" where
  "fromCreate nm uris (MeRequest t) = True"
| "fromCreate nm uris (CreatePlaylist t u n p) = (n = nm)"
| "fromCreate nm uris (AddTracks t p us) = (us = uris)"
| "fromCreate nm uris c = False"

subsection \<open>Unfolding\<close>

lemmas fixtures = cfgDemo_def cfgNoDemo_def newSession_def okToken_def calmWorld_def
  sternWorld_def garbledWorld_def variedWorld_def queenQuery_def abbaQuery_def kissQuery_def
  roadTrip_def twoArtists_def threeArtists_def

lemmas gen_defs = generate_def missingFields_def badSongCount_def getAccessToken_def
  stillValid_def userRefresh_def serviceFallback_def refreshRequest_def searchQuery_def
  yearFilter_def selectedUris_def countOrDefault_def slice0_def createPlaylist_def failed_def

section \<open>The arithmetic of the expiry\<close>

text \<open>Below \<open>2^53\<close> in size the arithmetic of line 66 is exact.\<close>

lemma toNumber_exact: "\<bar>i\<bar> < 9007199254740992 \<Longrightarrow> toNumber i = Num i"
  by (simp add: toNumber_def nearest_def Let_def)

lemma expiry_exact:
  assumes "\<bar>n * 1000\<bar> < 9007199254740992" and "\<bar>int now + n * 1000\<bar> < 9007199254740992"
  shows "expiry now (Some n) = Num (int now + n * 1000)"
proof -
  have "\<bar>n\<bar> < 9007199254740992" using assms(1) by linarith
  then have "toNumber n = Num n" by (rule toNumber_exact)
  then show ?thesis
    using assms by (simp add: expiry_def toNumber_exact)
qed

text \<open>Above, it rounds: an \<^verbatim>\<open>expires_in\<close> of \<open>2^53\<close> seconds at the clock 1000.\<close>

lemma expiry_rounds: "expiry 1000 (Some 9007199254740992) = Num 9007199254740993024"
  by code_simp

lemma expiry_hour: "expiry 1000 (Some 3600) = Num 3601000"
  using expiry_exact [of 3600 1000] by simp

section \<open>The token provider\<close>

text \<open>
  C3. A session that holds an access token (a non-empty string, which is what the test
  \<^verbatim>\<open>session.accessToken\<close> of line 43 asks) whose \<open>expiresAt\<close> is strictly later than the
  clock (\<open>before\<close> is \<^verbatim>\<open>Date.now() < session.expiresAt\<close>) gets exactly that token back with
  mode user; the trace of upstream calls and every field of the session are unchanged.
\<close>

theorem getAccessToken_cache_hit:
  assumes "accessToken s = Some t" and "t \<noteq> []"
    and "expiresAt s = Some e" and "before (clock w tr) e"
  shows "getAccessToken cfg w (Some s) tr = (Inr (Some t, User), Some s, tr)"
  using assms by (cases e) (auto simp: getAccessToken_def stillValid_def)

theorem getAccessToken_cache_hit_witness:
  "getAccessToken cfgDemo calmWorld
     (Some (newSession\<lparr>accessToken := Some ''mine'', expiresAt := Some (Num 5000)\<rparr>)) []
   = (Inr (Some ''mine'', User),
      Some (newSession\<lparr>accessToken := Some ''mine'', expiresAt := Some (Num 5000)\<rparr>), [])"
  using getAccessToken_cache_hit
    [of "newSession\<lparr>accessToken := Some ''mine'', expiresAt := Some (Num 5000)\<rparr>"
        "''mine''" "Num 5000" calmWorld "[]" cfgDemo]
  by (simp add: newSession_def calmWorld_def)

text \<open>
  C2. A session whose access token is not usable (absent, or not expiring in the future)
  and which has a refresh token (a non-empty string, the test of line 48) makes one
  exchange of that refresh token. When the exchange succeeds (the response is ok and its
  body is a JSON value other than \<^verbatim>\<open>null\<close>), this is the only call, the session's
  \<open>accessToken\<close> is the new token, its \<open>expiresAt\<close> is \<^verbatim>\<open>Date.now() + expires_in * 1000\<close>
  as line 66 computes it, with the clock read after the exchange, and the new token is
  returned with mode user. That number is exactly the clock plus \<open>expires_in\<close> seconds in
  milliseconds as long as the product and the sum stay below \<open>2^53\<close> in size. When the
  exchange does not succeed, nothing is raised at this step and the session is
  unchanged: the result is that of the service token step, which starts after the one
  exchange and adds at most the exchange of the service token.
\<close>

theorem getAccessToken_user_refresh:
  assumes "\<not> stillValid (clock w tr) s" and "refreshToken s = Some rt" and "rt \<noteq> []"
  shows "(\<forall>d. token_api w tr (refreshRequest cfg rt) = Response True (Parsed d) \<longrightarrow>
            getAccessToken cfg w (Some s) tr =
              (Inr (access_token d, User),
               Some (s\<lparr>accessToken := access_token d,
                       expiresAt := Some (expiry (clock w (tr @ [refreshRequest cfg rt]))
                                            (expires_in d))\<rparr>),
               tr @ [refreshRequest cfg rt]))
       \<and> (\<forall>now n. \<bar>n * 1000\<bar> < 9007199254740992 \<and> \<bar>int now + n * 1000\<bar> < 9007199254740992 \<longrightarrow>
            expiry now (Some n) = Num (int now + n * 1000))
       \<and> ((\<forall>d. token_api w tr (refreshRequest cfg rt) \<noteq> Response True (Parsed d)) \<longrightarrow>
            getAccessToken cfg w (Some s) tr =
              (fst (serviceFallback cfg w (tr @ [refreshRequest cfg rt])), Some s,
               snd (serviceFallback cfg w (tr @ [refreshRequest cfg rt]))))
       \<and> (snd (snd (getAccessToken cfg w (Some s) tr)) = tr @ [refreshRequest cfg rt] \<or>
          (\<exists>srt. SERVICE_REFRESH_TOKEN cfg = Some srt \<and>
                 snd (snd (getAccessToken cfg w (Some s) tr)) =
                   tr @ [refreshRequest cfg rt, refreshRequest cfg srt]))"
proof (intro conjI)
  show "\<forall>d. token_api w tr (refreshRequest cfg rt) = Response True (Parsed d) \<longrightarrow>
            getAccessToken cfg w (Some s) tr =
              (Inr (access_token d, User),
               Some (s\<lparr>accessToken := access_token d,
                       expiresAt := Some (expiry (clock w (tr @ [refreshRequest cfg rt]))
                                            (expires_in d))\<rparr>),
               tr @ [refreshRequest cfg rt])"
    using assms by (auto simp: getAccessToken_def userRefresh_def Let_def)
next
  show "\<forall>now n. \<bar>n * 1000\<bar> < 9007199254740992 \<and> \<bar>int now + n * 1000\<bar> < 9007199254740992 \<longrightarrow>
            expiry now (Some n) = Num (int now + n * 1000)"
    using expiry_exact by blast
next
  show "(\<forall>d. token_api w tr (refreshRequest cfg rt) \<noteq> Response True (Parsed d)) \<longrightarrow>
            getAccessToken cfg w (Some s) tr =
              (fst (serviceFallback cfg w (tr @ [refreshRequest cfg rt])), Some s,
               snd (serviceFallback cfg w (tr @ [refreshRequest cfg rt])))"
    using assms
    by (auto simp: getAccessToken_def userRefresh_def Let_def
             split: reply.splits body.splits prod.splits)
next
  show "snd (snd (getAccessToken cfg w (Some s) tr)) = tr @ [refreshRequest cfg rt] \<or>
          (\<exists>srt. SERVICE_REFRESH_TOKEN cfg = Some srt \<and>
                 snd (snd (getAccessToken cfg w (Some s) tr)) =
                   tr @ [refreshRequest cfg rt, refreshRequest cfg srt])"
    using assms
    by (cases "SERVICE_REFRESH_TOKEN cfg")
       (auto simp: getAccessToken_def userRefresh_def serviceFallback_def Let_def
             split: reply.splits body.splits prod.splits)
qed

theorem getAccessToken_user_refresh_witness:
  "getAccessToken cfgDemo calmWorld
     (Some (newSession\<lparr>accessToken := Some ''old'', refreshToken := Some ''r'',
                       expiresAt := Some (Num 500)\<rparr>)) []
   = (Inr (Some ''fresh'', User),
      Some (newSession\<lparr>accessToken := Some ''fresh'', refreshToken := Some ''r'',
                        expiresAt := Some (Num 3601000)\<rparr>),
      [TokenRequest ''id'' ''secret'' (RefreshTokenGrant ''r'')])
   \<and> getAccessToken cfgNoDemo sternWorld
       (Some (newSession\<lparr>accessToken := Some ''old'', refreshToken := Some ''r'',
                         expiresAt := Some (Num 500)\<rparr>)) []
     = (Inl (Error ''No authentication available. Please log in or configure SERVICE_REFRESH_TOKEN.''),
        Some (newSession\<lparr>accessToken := Some ''old'', refreshToken := Some ''r'',
                          expiresAt := Some (Num 500)\<rparr>),
        [TokenRequest ''id'' ''secret'' (RefreshTokenGrant ''r'')])"
proof -
  let ?s = "newSession\<lparr>accessToken := Some ''old'', refreshToken := Some ''r'',
                       expiresAt := Some (Num 500)\<rparr>"
  have stale: "\<not> stillValid (clock calmWorld []) ?s" "\<not> stillValid (clock sternWorld []) ?s"
    by (simp_all add: stillValid_def calmWorld_def sternWorld_def newSession_def)
  have rt: "refreshToken ?s = Some ''r''" "''r'' \<noteq> []"
    by (simp_all add: newSession_def)
  note calm = getAccessToken_user_refresh [OF stale(1) rt, of cfgDemo]
  note stern = getAccessToken_user_refresh [OF stale(2) rt, of cfgNoDemo]
  have ok: "token_api calmWorld [] (refreshRequest cfgDemo ''r'') = Response True (Parsed okToken)"
    by (simp add: calmWorld_def)
  have exact: "expiry 1000 (Some 3600) = Num (int 1000 + 3600 * 1000)"
    using calm [THEN conjunct2, THEN conjunct1, rule_format, of 3600 1000] by simp
  have one: "getAccessToken cfgDemo calmWorld (Some ?s) []
      = (Inr (access_token okToken, User),
         Some (?s\<lparr>accessToken := access_token okToken,
                  expiresAt := Some (expiry (clock calmWorld ([] @ [refreshRequest cfgDemo ''r'']))
                                       (expires_in okToken))\<rparr>),
         [] @ [refreshRequest cfgDemo ''r''])"
    using calm [THEN conjunct1, rule_format, OF ok] .
  have no: "\<forall>d. token_api sternWorld [] (refreshRequest cfgNoDemo ''r'') \<noteq> Response True (Parsed d)"
    by (simp add: sternWorld_def calmWorld_def)
  have two: "getAccessToken cfgNoDemo sternWorld (Some ?s) []
      = (fst (serviceFallback cfgNoDemo sternWorld ([] @ [refreshRequest cfgNoDemo ''r''])), Some ?s,
         snd (serviceFallback cfgNoDemo sternWorld ([] @ [refreshRequest cfgNoDemo ''r''])))"
    using stern [THEN conjunct2, THEN conjunct2, THEN conjunct1] no by (rule mp)
  from one exact have "getAccessToken cfgDemo calmWorld (Some ?s) []
      = (Inr (Some ''fresh'', User),
      Some (newSession\<lparr>accessToken := Some ''fresh'', refreshToken := Some ''r'',
                        expiresAt := Some (Num 3601000)\<rparr>),
      [TokenRequest ''id'' ''secret'' (RefreshTokenGrant ''r'')])"
    by (simp add: okToken_def calmWorld_def newSession_def refreshRequest_def cfgDemo_def)
  moreover from two have "getAccessToken cfgNoDemo sternWorld (Some ?s) []
     = (Inl (Error ''No authentication available. Please log in or configure SERVICE_REFRESH_TOKEN.''),
        Some ?s, [TokenRequest ''id'' ''secret'' (RefreshTokenGrant ''r'')])"
    by (simp add: serviceFallback_def cfgNoDemo_def refreshRequest_def)
  ultimately show ?thesis by simp
qed

text \<open>
  C1. A session with no usable access token and no usable refresh token (the refresh
  token is missing or empty, or its exchange did not succeed) comes to the service
  token. Here \<open>t\<close> is the trace on arrival: the trace of the call, with the failed exchange
  of the user's refresh token when there was one. If a service refresh token is
  configured (\<^verbatim>\<open>SERVICE_REFRESH_TOKEN\<close> is a non-empty string, the test of line 75) it is
  exchanged, and a successful exchange returns its token with mode demo; an exchange
  that does not succeed raises, with no further call; if none is configured the call
  raises the "no authentication available" error. In each case the session is returned
  as it was.
\<close>

theorem getAccessToken_service_fallback:
  assumes "\<not> stillValid (clock w tr) s"
    and "(\<not> truthyS (refreshToken s) \<and> t = tr) \<or>
         (\<exists>rt. refreshToken s = Some rt \<and> rt \<noteq> [] \<and> t = tr @ [refreshRequest cfg rt] \<and>
               (\<forall>d. token_api w tr (refreshRequest cfg rt) \<noteq> Response True (Parsed d)))"
  shows "(\<forall>srt d. SERVICE_REFRESH_TOKEN cfg = Some srt \<and> srt \<noteq> [] \<and>
                  token_api w t (refreshRequest cfg srt) = Response True (Parsed d) \<longrightarrow>
            getAccessToken cfg w (Some s) tr =
              (Inr (access_token d, Demo), Some s, t @ [refreshRequest cfg srt]))
       \<and> (\<forall>srt. SERVICE_REFRESH_TOKEN cfg = Some srt \<and> srt \<noteq> [] \<and>
                (\<forall>d. token_api w t (refreshRequest cfg srt) \<noteq> Response True (Parsed d)) \<longrightarrow>
            (\<exists>e. getAccessToken cfg w (Some s) tr =
                   (Inl e, Some s, t @ [refreshRequest cfg srt])))
       \<and> (\<not> truthyS (SERVICE_REFRESH_TOKEN cfg) \<longrightarrow>
            getAccessToken cfg w (Some s) tr =
              (Inl (Error ''No authentication available. Please log in or configure SERVICE_REFRESH_TOKEN.''),
               Some s, t))"
proof -
  have ft: "getAccessToken cfg w (Some s) tr =
      (fst (serviceFallback cfg w t), Some s, snd (serviceFallback cfg w t))"
    using assms
    by (cases "refreshToken s")
       (auto simp: getAccessToken_def userRefresh_def Let_def
             split: reply.splits body.splits prod.splits)
  show ?thesis
    unfolding ft
    by (cases "SERVICE_REFRESH_TOKEN cfg")
       (auto simp: serviceFallback_def Let_def split: reply.splits body.splits)
qed

theorem getAccessToken_service_fallback_witness:
  "getAccessToken cfgDemo calmWorld (Some newSession) []
     = (Inr (Some ''fresh'', Demo), Some newSession,
        [TokenRequest ''id'' ''secret'' (RefreshTokenGrant ''service'')])
   \<and> (\<exists>e. getAccessToken cfgDemo sternWorld (Some (newSession\<lparr>refreshToken := Some ''r''\<rparr>)) []
           = (Inl e, Some (newSession\<lparr>refreshToken := Some ''r''\<rparr>),
              [TokenRequest ''id'' ''secret'' (RefreshTokenGrant ''r''),
               TokenRequest ''id'' ''secret'' (RefreshTokenGrant ''service'')]))
   \<and> getAccessToken cfgNoDemo calmWorld (Some newSession) []
     = (Inl (Error ''No authentication available. Please log in or configure SERVICE_REFRESH_TOKEN.''),
        Some newSession, [])"
  using getAccessToken_service_fallback [of calmWorld "[]" newSession "[]" cfgDemo]
    getAccessToken_service_fallback
      [of sternWorld "[]" "newSession\<lparr>refreshToken := Some ''r''\<rparr>"
          "[TokenRequest ''id'' ''secret'' (RefreshTokenGrant ''r'')]" cfgDemo]
    getAccessToken_service_fallback [of calmWorld "[]" newSession "[]" cfgNoDemo]
  by (simp add: newSession_def calmWorld_def sternWorld_def cfgDemo_def cfgNoDemo_def okToken_def
        stillValid_def refreshRequest_def)

section \<open>The callback of the authorization\<close>

text \<open>
  C5, as the claim states it, fails: \<^verbatim>\<open>/login\<close> stores
  \<^verbatim>\<open>Math.random().toString(36).substring(7)\<close>, which is the empty string when the random
  number has a short expansion (0.5 is \<^verbatim>\<open>0.i\<close>), and line 149 takes an empty stored state
  for no state. With the empty state stored and a different state returned, the code is
  exchanged and the tokens are stored.
\<close>

theorem callback_empty_state_counterexample:
  "state (newSession\<lparr>state := Some ''''\<rparr>) = Some '''' \<and>
   orNull (q_state \<lparr>q_code = Some ''c'', q_state = Some ''abc'', q_error = None\<rparr>) \<noteq> Some '''' \<and>
   callback cfgDemo calmWorld \<lparr>q_code = Some ''c'', q_state = Some ''abc'', q_error = None\<rparr>
      (newSession\<lparr>state := Some ''''\<rparr>) []
   = (Html 200 SuccessPage,
      \<lparr>accessToken = Some ''fresh'', refreshToken = Some ''again'', expiresAt = Some (Num 3601000),
        state = None\<rparr>,
      [TokenRequest ''id'' ''secret''
         (AuthorizationCodeGrant ''c'' ''http://127.0.0.1:5500/callback'')])"
  by (simp add: fixtures callback_def exchangeCode_def expiry_hour)

text \<open>
  C5, amended. Whenever a non-empty state is stored in the session and the returned
  state differs from it (or is missing), the answer has status 400, and the session and
  the trace of upstream calls are unchanged, so the token fields stay as they were.
  Whenever the session has no state (none, or the empty string) and the request carries
  a code and no error, the handler goes on to the exchange of the code: it makes that one
  call to the token endpoint and answers as the exchange decides.
\<close>

theorem callback_state_check:
  "(state s = Some st \<and> st \<noteq> [] \<and> q_state q \<noteq> Some st \<longrightarrow>
      status (fst (callback cfg w q s tr)) = 400 \<and> snd (callback cfg w q s tr) = (s, tr))
   \<and> (\<not> truthyS (state s) \<and> \<not> truthyS (q_error q) \<and> q_code q = Some cd \<and> cd \<noteq> [] \<longrightarrow>
      callback cfg w q s tr = exchangeCode cfg w cd s tr \<and>
      snd (snd (callback cfg w q s tr)) =
        tr @ [TokenRequest (CLIENT_ID cfg) (CLIENT_SECRET cfg)
                (AuthorizationCodeGrant cd (REDIRECT_URI cfg))])"
proof (intro conjI impI)
  assume a: "state s = Some st \<and> st \<noteq> [] \<and> q_state q \<noteq> Some st"
  then have ne: "orNull (q_state q) \<noteq> Some st"
    by (cases "q_state q") auto
  show "status (fst (callback cfg w q s tr)) = 400"
    using a ne by (auto simp: callback_def split: option.splits)
  show "snd (callback cfg w q s tr) = (s, tr)"
    using a ne by (auto simp: callback_def split: option.splits)
next
  assume b: "\<not> truthyS (state s) \<and> \<not> truthyS (q_error q) \<and> q_code q = Some cd \<and> cd \<noteq> []"
  then have e: "orNull (q_error q) = None"
    by (cases "q_error q") auto
  show c: "callback cfg w q s tr = exchangeCode cfg w cd s tr"
    using b e by (simp add: callback_def)
  show "snd (snd (callback cfg w q s tr)) =
        tr @ [TokenRequest (CLIENT_ID cfg) (CLIENT_SECRET cfg)
                (AuthorizationCodeGrant cd (REDIRECT_URI cfg))]"
    unfolding c
    by (auto simp: exchangeCode_def Let_def split: reply.splits body.splits)
qed

theorem callback_state_check_witness:
  "status (fst (callback cfgDemo calmWorld
      \<lparr>q_code = Some ''c'', q_state = Some ''abc'', q_error = None\<rparr>
      (newSession\<lparr>state := Some ''xyz''\<rparr>) [])) = 400
   \<and> snd (callback cfgDemo calmWorld
      \<lparr>q_code = Some ''c'', q_state = Some ''abc'', q_error = None\<rparr>
      (newSession\<lparr>state := Some ''xyz''\<rparr>) []) = (newSession\<lparr>state := Some ''xyz''\<rparr>, [])
   \<and> snd (snd (callback cfgDemo calmWorld
      \<lparr>q_code = Some ''c'', q_state = Some ''abc'', q_error = None\<rparr> newSession []))
     = [TokenRequest ''id'' ''secret''
          (AuthorizationCodeGrant ''c'' ''http://127.0.0.1:5500/callback'')]"
proof -
  let ?q = "\<lparr>q_code = Some ''c'', q_state = Some ''abc'', q_error = None\<rparr>"
  have mismatch: "state (newSession\<lparr>state := Some ''xyz''\<rparr>) = Some ''xyz'' \<and> ''xyz'' \<noteq> [] \<and>
      q_state ?q \<noteq> Some ''xyz''"
    by simp
  have lenient: "\<not> truthyS (state newSession) \<and> \<not> truthyS (q_error ?q) \<and>
      q_code ?q = Some ''c'' \<and> ''c'' \<noteq> []"
    by (simp add: newSession_def)
  have one: "status (fst (callback cfgDemo calmWorld ?q (newSession\<lparr>state := Some ''xyz''\<rparr>) [])) = 400
      \<and> snd (callback cfgDemo calmWorld ?q (newSession\<lparr>state := Some ''xyz''\<rparr>) [])
          = (newSession\<lparr>state := Some ''xyz''\<rparr>, [])"
    using callback_state_check
        [of "newSession\<lparr>state := Some ''xyz''\<rparr>" "''xyz''" ?q cfgDemo calmWorld "[]" "''c''",
         THEN conjunct1] mismatch
    by (rule mp)
  have two: "callback cfgDemo calmWorld ?q newSession [] = exchangeCode cfgDemo calmWorld ''c'' newSession []
      \<and> snd (snd (callback cfgDemo calmWorld ?q newSession []))
          = [] @ [TokenRequest (CLIENT_ID cfgDemo) (CLIENT_SECRET cfgDemo)
                   (AuthorizationCodeGrant ''c'' (REDIRECT_URI cfgDemo))]"
    using callback_state_check
        [of newSession "''xyz''" ?q cfgDemo calmWorld "[]" "''c''", THEN conjunct2] lenient
    by (rule mp)
  from two [THEN conjunct2] have "snd (snd (callback cfgDemo calmWorld ?q newSession []))
      = [TokenRequest ''id'' ''secret''
          (AuthorizationCodeGrant ''c'' ''http://127.0.0.1:5500/callback'')]"
    by (simp add: cfgDemo_def)
  with one show ?thesis by blast
qed

section \<open>The search for artists\<close>

text \<open>Without \<^verbatim>\<open>q\<close> the answer is decided by the token: 500 when there is none, 400 after it.\<close>

lemma searchArtists_without_q:
  "\<not> truthyS q \<Longrightarrow>
   searchArtists cfg w q so tr =
     (case getAccessToken cfg w so tr of
        (Inl e, so', tr') \<Rightarrow> (Json 500 (ErrorBody (message w e)), so', tr')
      | (Inr r, so', tr') \<Rightarrow>
          (Json 400 (ErrorBody (''Query parameter '' @ [CHR 0x22] @ ''q'' @ [CHR 0x22] @ '' is required'')),
           so', tr'))"
  by (simp add: searchArtists_def split: prod.splits sum.splits)

text \<open>
  C8. The handler resolves the token (line 234) before it looks at \<^verbatim>\<open>q\<close> (line 237).
  With \<^verbatim>\<open>q\<close> missing, a session that never logged in and no service token, the answer
  is 500, not 400; with a service token configured, the token endpoint is called before
  the 400 is sent.
\<close>

theorem searchArtists_missing_q:
  "searchArtists cfgNoDemo calmWorld None (Some newSession) []
     = (Json 500 (ErrorBody ''No authentication available. Please log in or configure SERVICE_REFRESH_TOKEN.''),
        Some newSession, [])
   \<and> searchArtists cfgDemo calmWorld None (Some newSession) []
     = (Json 400 (ErrorBody (''Query parameter '' @ [CHR 0x22] @ ''q'' @ [CHR 0x22] @ '' is required'')),
        Some newSession, [TokenRequest ''id'' ''secret'' (RefreshTokenGrant ''service'')])"
  by (simp add: fixtures searchArtists_def getAccessToken_def stillValid_def userRefresh_def
        serviceFallback_def refreshRequest_def)

section \<open>The generation of a playlist\<close>

subsection \<open>The validation of the request\<close>

lemma generate_rejects_missing_fields:
  "missingFields b \<Longrightarrow>
   generate cfg w b so tr =
     (Json 400 (ErrorBody ''Invalid request: name and artists are required''), so, tr)"
  by (simp add: generate_def)

lemma generate_rejects_empty_artists:
  "artists b = Some (JArr []) \<Longrightarrow>
   status (fst (generate cfg w b so tr)) = 400 \<and> snd (generate cfg w b so tr) = (so, tr)"
  by (simp add: generate_def missingFields_def)

lemma generate_rejects_count_out_of_range:
  "songCount b = Some n \<Longrightarrow> n < 0 \<or> 100 < n \<Longrightarrow>
   status (fst (generate cfg w b so tr)) = 400 \<and> snd (generate cfg w b so tr) = (so, tr)"
  by (auto simp: generate_def badSongCount_def)

text \<open>
  C6. A request with no artists, and a request whose count is negative or above 100, is
  answered with 400 and no upstream call (the three lemmas above). A count of 0 is not:
  line 270 tests \<^verbatim>\<open>songCount && ...\<close>, and 0 is falsy, so the request passes the check
  whose message is "Song count must be between 1 and 100", the token endpoint and the
  search are called, and a playlist of up to 20 tracks is made.
\<close>

theorem generate_songCount_zero:
  "generate cfgDemo calmWorld (roadTrip\<lparr>songCount := Some 0\<rparr>) (Some newSession) []
   = (Json 200 (PlaylistBody (Some ''https://open.spotify.com/playlist/p1'') (Some ''Road Trip'') Demo),
      Some newSession,
      [TokenRequest ''id'' ''secret'' (RefreshTokenGrant ''service''),
       TrackSearch (Some ''fresh'') (''artist:'' @ [CHR 0x22] @ ''Queen'' @ [CHR 0x22]) 15,
       MeRequest (Some ''fresh''),
       CreatePlaylist (Some ''fresh'') (Some ''me'') (JStr ''Road Trip'') True,
       AddTracks (Some ''fresh'') (Some ''p1'') [Some ''spotify:track:1'']])"
  by (simp add: fixtures gen_defs)

subsection \<open>The trace of a generation\<close>

lemma serviceFallback_calls:
  "\<exists>new. snd (serviceFallback cfg w tr) = tr @ new \<and> list_all isTokenRequest new"
  by (cases "SERVICE_REFRESH_TOKEN cfg")
     (auto simp: serviceFallback_def refreshRequest_def Let_def split: reply.splits body.splits)

lemma userRefresh_calls:
  "\<exists>new. snd (userRefresh cfg w s tr) = tr @ new \<and> list_all isTokenRequest new"
  by (cases "refreshToken s")
     (auto simp: userRefresh_def refreshRequest_def Let_def split: reply.splits body.splits)

lemma getAccessToken_calls:
  "\<exists>new. snd (snd (getAccessToken cfg w so tr)) = tr @ new \<and> list_all isTokenRequest new"
proof (cases so)
  case None
  then show ?thesis
    using serviceFallback_calls [of cfg w tr]
    by (auto simp: getAccessToken_def split: prod.splits)
next
  case (Some s)
  obtain n1 where n1: "snd (userRefresh cfg w s tr) = tr @ n1" "list_all isTokenRequest n1"
    using userRefresh_calls by blast
  obtain n2 where n2: "snd (serviceFallback cfg w (tr @ n1)) = (tr @ n1) @ n2"
      "list_all isTokenRequest n2"
    using serviceFallback_calls by blast
  show ?thesis
  proof (cases "stillValid (clock w tr) s")
    case True
    with Some show ?thesis by (simp add: getAccessToken_def)
  next
    case False
    show ?thesis
    proof (cases "fst (userRefresh cfg w s tr)")
      case None
      then have "snd (snd (getAccessToken cfg w so tr)) = tr @ (n1 @ n2)"
        using Some False n1 n2
        by (cases "userRefresh cfg w s tr") (auto simp: getAccessToken_def split: prod.splits)
      then show ?thesis using n1 n2 by (metis list_all_append)
    next
      case (Some r)
      then have "snd (snd (getAccessToken cfg w so tr)) = tr @ n1"
        using \<open>so = Some s\<close> False n1
        by (cases "userRefresh cfg w s tr") (auto simp: getAccessToken_def split: prod.splits)
      then show ?thesis using n1 by blast
    qed
  qed
qed


lemma searchLoop_found:
  assumes "track_api w tr (TrackSearch token (searchQuery w artist sy ey) 15)
      = Response True (Parsed d)"
  shows "tracks d = Some (Some items) \<Longrightarrow>
         searchLoop w token sy ey (artist # rest) allTracks tr
           = searchLoop w token sy ey rest (allTracks @ items)
               (tr @ [TrackSearch token (searchQuery w artist sy ey) 15])"
    and "tracks d = None \<Longrightarrow>
         searchLoop w token sy ey (artist # rest) allTracks tr
           = searchLoop w token sy ey rest allTracks
               (tr @ [TrackSearch token (searchQuery w artist sy ey) 15])"
  using assms by simp_all

lemma searchLoop_throws:
  assumes "track_api w tr (TrackSearch token (searchQuery w artist sy ey) 15) = r"
    and "(\<exists>m. r = Rejected m) \<or> (\<exists>ok m. r = Response ok (Unparsable m)) \<or>
         r = Response True NullBody \<or> (\<exists>d. r = Response True (Parsed d) \<and> tracks d = Some None)"
  shows "\<exists>e. searchLoop w token sy ey (artist # rest) allTracks tr
           = (Inl e, tr @ [TrackSearch token (searchQuery w artist sy ey) 15])"
  using assms by auto

text \<open>The searches issued are those of a leading part of the list, in its order.\<close>

lemma searchLoop_trace:
  "\<exists>k\<le>length arts. snd (searchLoop w token sy ey arts allTracks tr)
      = tr @ map (\<lambda>a. TrackSearch token (searchQuery w a sy ey) 15) (take k arts)"
proof (induction arts arbitrary: allTracks tr)
  case Nil
  then show ?case by simp
next
  case (Cons a rest)
  let ?c = "TrackSearch token (searchQuery w a sy ey) 15"
  let ?f = "\<lambda>a. TrackSearch token (searchQuery w a sy ey) 15"
  have stop: "snd (searchLoop w token sy ey (a # rest) allTracks tr) = tr @ [?c] \<Longrightarrow> ?case"
    by (rule exI [of _ 1]) simp
  have go: "snd (searchLoop w token sy ey (a # rest) allTracks tr)
             = snd (searchLoop w token sy ey rest acc (tr @ [?c])) \<Longrightarrow> ?case" for acc
  proof -
    assume e: "snd (searchLoop w token sy ey (a # rest) allTracks tr)
             = snd (searchLoop w token sy ey rest acc (tr @ [?c]))"
    obtain k where k: "k \<le> length rest"
      "snd (searchLoop w token sy ey rest acc (tr @ [?c])) = (tr @ [?c]) @ map ?f (take k rest)"
      using Cons.IH by blast
    show ?case
      by (rule exI [of _ "Suc k"]) (use e k in simp)
  qed
  show ?case
  proof (cases "track_api w tr ?c")
    case (Rejected m)
    then show ?thesis by (intro stop) simp
  next
    case (Response ok b)
    show ?thesis
    proof (cases b)
      case (Unparsable m)
      with Response show ?thesis by (intro stop) simp
    next
      case NullBody
      show ?thesis
      proof (cases ok)
        case True
        with Response NullBody show ?thesis by (intro stop) simp
      next
        case False
        with Response NullBody show ?thesis by (intro go [of allTracks]) simp
      qed
    next
      case (Parsed d)
      show ?thesis
      proof (cases ok)
        case False
        with Response Parsed show ?thesis by (intro go [of allTracks]) simp
      next
        case True
        show ?thesis
        proof (cases "tracks d")
          case None
          with Response Parsed True show ?thesis by (intro go [of allTracks]) simp
        next
          case (Some page)
          show ?thesis
          proof (cases page)
            case None
            with Response Parsed True Some show ?thesis by (intro stop) simp
          next
            case (Some items)
            with Response Parsed True \<open>tracks d = Some page\<close> show ?thesis
              by (intro go [of "allTracks @ items"]) simp
          qed
        qed
      qed
    qed
  qed
qed


lemma searchLoop_calls:
  "\<exists>new. snd (searchLoop w token sy ey arts allTracks tr) = tr @ new \<and> list_all isTrackSearch new"
proof -
  obtain k where "snd (searchLoop w token sy ey arts allTracks tr)
      = tr @ map (\<lambda>a. TrackSearch token (searchQuery w a sy ey) 15) (take k arts)"
    using searchLoop_trace by blast
  then show ?thesis
    by (intro exI [of _ "map (\<lambda>a. TrackSearch token (searchQuery w a sy ey) 15) (take k arts)"])
       (simp add: list_all_iff)
qed

lemma createPlaylist_calls:
  "\<exists>new. snd (createPlaylist w token md nm uris tr) = tr @ new \<and>
         list_all (fromCreate (nameOrDefault nm) uris) new"
  by (auto simp: createPlaylist_def Let_def split: reply.splits body.splits option.splits)

lemma generate_calls:
  "\<exists>n1 n2 n3. snd (snd (generate cfg w b so tr)) = tr @ n1 @ n2 @ n3 \<and>
      list_all isTokenRequest n1 \<and> list_all isTrackSearch n2 \<and>
      (n3 = [] \<or>
       (\<not> missingFields b \<and>
        (\<exists>token md so' pool uris.
            getAccessToken cfg w so tr = (Inr (token, md), so', tr @ n1) \<and>
            searchLoop w token (startYear b) (endYear b) (elements (artists b)) [] (tr @ n1)
              = (Inr pool, tr @ n1 @ n2) \<and>
            selectedUris w (songCount b) pool = Inr uris \<and>
            list_all (fromCreate (nameOrDefault (name b)) uris) n3)))"
proof (cases "missingFields b \<or> badSongCount (songCount b)")
  case True
  then have "snd (snd (generate cfg w b so tr)) = tr @ [] @ [] @ []"
    by (auto simp: generate_def)
  then show ?thesis
    by (intro exI [of _ "[]"]) simp
next
  case False
  obtain r so' tr1 where g: "getAccessToken cfg w so tr = (r, so', tr1)"
    by (cases "getAccessToken cfg w so tr") auto
  obtain n1 where n1: "tr1 = tr @ n1" "list_all isTokenRequest n1"
    using getAccessToken_calls [of cfg w so tr] g by auto
  show ?thesis
  proof (cases r)
    case (Inl e)
    then have "snd (snd (generate cfg w b so tr)) = tr @ n1 @ [] @ []"
      using False g n1 by (simp add: generate_def)
    then show ?thesis
      using n1 by (intro exI [of _ n1] exI [of _ "[]"]) simp
  next
    case (Inr tm)
    obtain token md where tm: "tm = (token, md)" by (cases tm) auto
    obtain r2 tr2 where l: "searchLoop w token (startYear b) (endYear b) (elements (artists b)) [] tr1
        = (r2, tr2)"
      by (cases "searchLoop w token (startYear b) (endYear b) (elements (artists b)) [] tr1") auto
    obtain n2 where n2: "tr2 = tr1 @ n2" "list_all isTrackSearch n2"
      using searchLoop_calls [of w token "startYear b" "endYear b" "elements (artists b)" "[]" tr1] l
      by auto
    have quiet: "snd (snd (generate cfg w b so tr)) = tr @ n1 @ n2 @ [] \<Longrightarrow> ?thesis"
      using n1 n2 by (intro exI [of _ n1] exI [of _ n2] exI [of _ "[]"]) simp
    show ?thesis
    proof (cases r2)
      case (Inl e)
      then have "snd (snd (generate cfg w b so tr)) = tr @ n1 @ n2 @ []"
        using False g Inr tm l n1 n2 by (simp add: generate_def)
      then show ?thesis by (rule quiet)
    next
      case pool: (Inr pool)
      show ?thesis
      proof (cases "selectedUris w (songCount b) pool")
        case (Inl e)
        then have "snd (snd (generate cfg w b so tr)) = tr @ n1 @ n2 @ []"
          using False g Inr tm l pool n1 n2 by (simp add: generate_def)
        then show ?thesis by (rule quiet)
      next
        case sel: (Inr uris)
        show ?thesis
        proof (cases "uris = []")
          case True
          then have "snd (snd (generate cfg w b so tr)) = tr @ n1 @ n2 @ []"
            using False g Inr tm l pool sel n1 n2 by (simp add: generate_def)
          then show ?thesis by (rule quiet)
        next
          case nonempty: False
          obtain n3 where n3: "snd (createPlaylist w token md (name b) uris tr2) = tr2 @ n3"
              "list_all (fromCreate (nameOrDefault (name b)) uris) n3"
            using createPlaylist_calls by blast
          have "snd (snd (generate cfg w b so tr)) = tr @ n1 @ n2 @ n3"
            using False g Inr tm l pool sel n1 n2 n3 nonempty
            by (auto simp: generate_def split: prod.splits sum.splits)
          moreover have "getAccessToken cfg w so tr = (Inr (token, md), so', tr @ n1)"
            using g Inr tm n1 by simp
          moreover have "searchLoop w token (startYear b) (endYear b) (elements (artists b)) [] (tr @ n1)
                = (Inr pool, tr @ n1 @ n2)"
            using l pool n1 n2 by simp
          ultimately show ?thesis
            using n1 n2 n3 False sel
            by (intro exI [of _ n1] exI [of _ n2] exI [of _ n3]) auto
        qed
      qed
    qed
  qed
qed

lemma nameOrDefault_truthy: "truthy nm \<Longrightarrow> nm = Some (nameOrDefault nm)"
  by (cases nm) auto

subsection \<open>Facts about the selection and the insertion\<close>

lemma selectedUris_len:
  assumes "countOrDefault sc = n" and "1 \<le> n" and "mset (shuffle w p) = mset p"
    and "selectedUris w sc p = Inr uris"
  shows "length uris = min (nat n) (length p)"
proof -
  have "length (shuffle w p) = length p"
    using assms(3) by (rule mset_eq_length)
  moreover have "uris = map uriOf (slice0 n (shuffle w p))"
    using assms(1,4) by (auto simp: selectedUris_def Let_def split: if_splits)
  ultimately show ?thesis
    using assms(2) by (simp add: slice0_def)
qed

lemma selectedUris_total:
  assumes "NoItem \<notin> set p" and "mset (shuffle w p) = mset p"
  shows "\<exists>uris. selectedUris w sc p = Inr uris"
proof -
  have "set (shuffle w p) = set p"
    using assms(2) by (rule mset_eq_setD)
  moreover have "set (slice0 (countOrDefault sc) (shuffle w p)) \<subseteq> set (shuffle w p)"
    by (simp add: slice0_def set_take_subset)
  ultimately have "set (slice0 (countOrDefault sc) (shuffle w p)) \<subseteq> set p"
    by simp
  with assms(1) show ?thesis
    by (auto simp: selectedUris_def Let_def)
qed

lemma generate_inserts:
  assumes "\<not> missingFields b" and "\<not> badSongCount (songCount b)"
    and "getAccessToken cfg w so tr = (Inr (token, md), so', tr1)"
    and "searchLoop w token (startYear b) (endYear b) (elements (artists b)) [] tr1 = (Inr pool, tr2)"
    and "selectedUris w (songCount b) pool = Inr uris" and "uris \<noteq> []"
    and "me_api w tr2 (MeRequest token) = Response True (Parsed meData)"
    and "playlist_api w (tr2 @ [MeRequest token])
           (CreatePlaylist token (me_id meData) (nameOrDefault (name b)) True)
         = Response True (Parsed playlistData)"
  shows "snd (snd (generate cfg w b so tr))
     = tr2 @ [MeRequest token, CreatePlaylist token (me_id meData) (nameOrDefault (name b)) True,
              AddTracks token (playlist_id playlistData) uris]"
  using assms
  by (auto simp: generate_def createPlaylist_def Let_def
           split: reply.splits body.splits option.splits)

lemma generate_added_tracks:
  assumes "AddTracks tok pid uris \<in> set (snd (snd (generate cfg w b so tr)))"
    and "AddTracks tok pid uris \<notin> set tr"
  shows "\<exists>token md so' tr1 gathered tr2.
             getAccessToken cfg w so tr = (Inr (token, md), so', tr1) \<and>
             searchLoop w token (startYear b) (endYear b) (elements (artists b)) [] tr1
               = (Inr gathered, tr2) \<and>
             selectedUris w (songCount b) gathered = Inr uris"
proof -
  let ?c = "AddTracks tok pid uris"
  obtain n1 n2 n3 where d: "snd (snd (generate cfg w b so tr)) = tr @ n1 @ n2 @ n3"
      "list_all isTokenRequest n1" "list_all isTrackSearch n2"
      "n3 = [] \<or> (\<not> missingFields b \<and>
        (\<exists>token md so' pool us.
            getAccessToken cfg w so tr = (Inr (token, md), so', tr @ n1) \<and>
            searchLoop w token (startYear b) (endYear b) (elements (artists b)) [] (tr @ n1)
              = (Inr pool, tr @ n1 @ n2) \<and>
            selectedUris w (songCount b) pool = Inr us \<and>
            list_all (fromCreate (nameOrDefault (name b)) us) n3))"
    using generate_calls [of cfg w b so tr] by blast
  have "?c \<notin> set n1" using d(2) by (auto simp: list_all_iff)
  moreover have "?c \<notin> set n2" using d(3) by (auto simp: list_all_iff)
  ultimately have in3: "?c \<in> set n3" using assms d(1) by auto
  then have "n3 \<noteq> []" by auto
  with d(4) obtain token md so' gathered us where v:
      "getAccessToken cfg w so tr = (Inr (token, md), so', tr @ n1)"
      "searchLoop w token (startYear b) (endYear b) (elements (artists b)) [] (tr @ n1)
              = (Inr gathered, tr @ n1 @ n2)"
      "selectedUris w (songCount b) gathered = Inr us"
      "list_all (fromCreate (nameOrDefault (name b)) us) n3"
    by blast
  from v(4) in3 have "uris = us"
    by (auto simp: list_all_iff)
  with v(1,2,3) show ?thesis
    by (intro exI [of _ token] exI [of _ md] exI [of _ so'] exI [of _ "tr @ n1"]
          exI [of _ gathered] exI [of _ "tr @ n1 @ n2"]) simp
qed

lemma count_in_range: "countOrDefault sc = n \<Longrightarrow> 1 \<le> n \<Longrightarrow> n \<le> 100 \<Longrightarrow> \<not> badSongCount sc"
  by (cases sc) (auto simp: countOrDefault_def badSongCount_def)

subsection \<open>The searches\<close>






subsection \<open>The selection\<close>

text \<open>
  C4, as the claim states it, fails: the pool is an array, nothing in lines 293 to 299
  removes a track found twice, and the URIs passed on are an array in which a URI can
  repeat. With 5 songs asked for and two artists for whom the search finds the same
  track, the pool has 2 candidates and the insertion carries 2 entries, but the set of
  URIs passed on has 1 element.
\<close>

theorem selectedUris_set_counterexample:
  "songCount (roadTrip\<lparr>artists := Some (JArr [JStr ''Queen'', JStr ''Abba''])\<rparr>) = Some 5 \<and>
   searchLoop calmWorld (Some ''fresh'') None None [JStr ''Queen'', JStr ''Abba''] []
       [TokenRequest ''id'' ''secret'' (RefreshTokenGrant ''service'')]
     = (Inr [Item (Some ''spotify:track:1''), Item (Some ''spotify:track:1'')],
        [TokenRequest ''id'' ''secret'' (RefreshTokenGrant ''service''),
         TrackSearch (Some ''fresh'') queenQuery 15, TrackSearch (Some ''fresh'') abbaQuery 15]) \<and>
   snd (snd (generate cfgDemo calmWorld
               (roadTrip\<lparr>artists := Some (JArr [JStr ''Queen'', JStr ''Abba''])\<rparr>)
               (Some newSession) []))
     = [TokenRequest ''id'' ''secret'' (RefreshTokenGrant ''service''),
        TrackSearch (Some ''fresh'') queenQuery 15, TrackSearch (Some ''fresh'') abbaQuery 15,
        MeRequest (Some ''fresh''),
        CreatePlaylist (Some ''fresh'') (Some ''me'') (JStr ''Road Trip'') True,
        AddTracks (Some ''fresh'') (Some ''p1'')
          [Some ''spotify:track:1'', Some ''spotify:track:1'']] \<and>
   card (set [Some ''spotify:track:1'', Some ''spotify:track:1''])
     \<noteq> min 5 (length [Item (Some ''spotify:track:1''), Item (Some ''spotify:track:1'')])"
  by (simp add: fixtures gen_defs)

text \<open>
  C4, amended. The request is valid: its artists are a non-empty array and its count,
  which is \<open>songCount\<close> or 20 when none is given, is between 1 and 100. The random sort
  returns a permutation of its array, as every \<^verbatim>\<open>Array.prototype.sort\<close> does. Then the
  array of URIs selected from a pool of tracks (no \<^verbatim>\<open>null\<close> among them) has
  \<open>min count (length pool)\<close> entries, counted with repetitions. When the token is
  resolved, the searches gather a pool that is not empty, and the profile and the
  creation of the playlist succeed, the handler issues the insertion of tracks with
  exactly that array; and every insertion of tracks that the handler issues carries the
  selection made from the pool that the searches of this request gathered, with that
  many entries.
\<close>

theorem selectedUris_length:
  assumes "countOrDefault (songCount b) = n" and "1 \<le> n" and "n \<le> 100"
    and "\<forall>xs. mset (shuffle w xs) = mset xs"
  shows "(\<forall>pool. NoItem \<notin> set pool \<longrightarrow>
            (\<exists>uris. selectedUris w (songCount b) pool = Inr uris \<and>
                    length uris = min (nat n) (length pool)))
    \<and> (\<forall>pool uris. selectedUris w (songCount b) pool = Inr uris \<longrightarrow>
            length uris = min (nat n) (length pool))
    \<and> (\<forall>token md so' tr1 pool tr2 meData playlistData.
          \<not> missingFields b \<and>
          getAccessToken cfg w so tr = (Inr (token, md), so', tr1) \<and>
          searchLoop w token (startYear b) (endYear b) (elements (artists b)) [] tr1
            = (Inr pool, tr2) \<and>
          pool \<noteq> [] \<and> NoItem \<notin> set pool \<and>
          me_api w tr2 (MeRequest token) = Response True (Parsed meData) \<and>
          playlist_api w (tr2 @ [MeRequest token])
              (CreatePlaylist token (me_id meData) (nameOrDefault (name b)) True)
            = Response True (Parsed playlistData) \<longrightarrow>
          (\<exists>uris. selectedUris w (songCount b) pool = Inr uris \<and>
                  length uris = min (nat n) (length pool) \<and>
                  snd (snd (generate cfg w b so tr))
                    = tr2 @ [MeRequest token,
                             CreatePlaylist token (me_id meData) (nameOrDefault (name b)) True,
                             AddTracks token (playlist_id playlistData) uris]))
    \<and> (\<forall>tok pid uris.
          AddTracks tok pid uris \<in> set (snd (snd (generate cfg w b so tr))) \<and>
          AddTracks tok pid uris \<notin> set tr \<longrightarrow>
          (\<exists>token md so' tr1 gathered tr2.
             getAccessToken cfg w so tr = (Inr (token, md), so', tr1) \<and>
             searchLoop w token (startYear b) (endYear b) (elements (artists b)) [] tr1
               = (Inr gathered, tr2) \<and>
             selectedUris w (songCount b) gathered = Inr uris \<and>
             length uris = min (nat n) (length gathered)))"
proof -
  have perm: "mset (shuffle w p) = mset p" for p
    using assms(4) by blast
  have len: "length uris = min (nat n) (length p)"
    if "selectedUris w (songCount b) p = Inr uris" for p uris
    using assms(1,2) perm that by (rule selectedUris_len)
  have total: "\<exists>uris. selectedUris w (songCount b) p = Inr uris \<and>
                       length uris = min (nat n) (length p)"
    if np: "NoItem \<notin> set p" for p
  proof -
    obtain uris where "selectedUris w (songCount b) p = Inr uris"
      using selectedUris_total [OF np perm] by blast
    with len show ?thesis by blast
  qed
  have handler: "\<exists>uris. selectedUris w (songCount b) pool = Inr uris \<and>
                  length uris = min (nat n) (length pool) \<and>
                  snd (snd (generate cfg w b so tr))
                    = tr2 @ [MeRequest token,
                             CreatePlaylist token (me_id meData) (nameOrDefault (name b)) True,
                             AddTracks token (playlist_id playlistData) uris]"
    if h: "\<not> missingFields b \<and>
          getAccessToken cfg w so tr = (Inr (token, md), so', tr1) \<and>
          searchLoop w token (startYear b) (endYear b) (elements (artists b)) [] tr1
            = (Inr pool, tr2) \<and>
          pool \<noteq> [] \<and> NoItem \<notin> set pool \<and>
          me_api w tr2 (MeRequest token) = Response True (Parsed meData) \<and>
          playlist_api w (tr2 @ [MeRequest token])
              (CreatePlaylist token (me_id meData) (nameOrDefault (name b)) True)
            = Response True (Parsed playlistData)"
    for token md so' tr1 pool tr2 meData playlistData
  proof -
    obtain uris where u: "selectedUris w (songCount b) pool = Inr uris"
        "length uris = min (nat n) (length pool)"
      using total h by blast
    have "0 < length pool" using h by simp
    moreover have "0 < nat n" using assms(2) by simp
    ultimately have "0 < length uris" using u(2) by simp
    then have "uris \<noteq> []" by auto
    then have "snd (snd (generate cfg w b so tr))
        = tr2 @ [MeRequest token,
                 CreatePlaylist token (me_id meData) (nameOrDefault (name b)) True,
                 AddTracks token (playlist_id playlistData) uris]"
      using generate_inserts [of b cfg w so tr token md so' tr1 pool tr2 uris meData playlistData]
        h u(1) count_in_range [OF assms(1,2,3)]
      by blast
    with u show ?thesis by blast
  qed
  have onward: "\<exists>token md so' tr1 gathered tr2.
             getAccessToken cfg w so tr = (Inr (token, md), so', tr1) \<and>
             searchLoop w token (startYear b) (endYear b) (elements (artists b)) [] tr1
               = (Inr gathered, tr2) \<and>
             selectedUris w (songCount b) gathered = Inr uris \<and>
             length uris = min (nat n) (length gathered)"
    if a: "AddTracks tok pid uris \<in> set (snd (snd (generate cfg w b so tr))) \<and>
          AddTracks tok pid uris \<notin> set tr" for tok pid uris
  proof -
    obtain token md so' tr1 gathered tr2 where g:
        "getAccessToken cfg w so tr = (Inr (token, md), so', tr1)"
        "searchLoop w token (startYear b) (endYear b) (elements (artists b)) [] tr1
               = (Inr gathered, tr2)"
        "selectedUris w (songCount b) gathered = Inr uris"
      using generate_added_tracks [of tok pid uris cfg w b so tr] a by blast
    have "length uris = min (nat n) (length gathered)"
      using g(3) by (rule len)
    with g show ?thesis
      by (intro exI [of _ token] exI [of _ md] exI [of _ so'] exI [of _ tr1]
            exI [of _ gathered] exI [of _ tr2]) simp
  qed
  show ?thesis
  proof (intro conjI allI impI)
    fix pool assume "NoItem \<notin> set pool"
    then show "\<exists>uris. selectedUris w (songCount b) pool = Inr uris \<and>
                    length uris = min (nat n) (length pool)"
      by (rule total)
  next
    fix pool uris assume "selectedUris w (songCount b) pool = Inr uris"
    then show "length uris = min (nat n) (length pool)"
      by (rule len)
  next
    fix token md so' tr1 pool tr2 meData playlistData
    assume "\<not> missingFields b \<and>
          getAccessToken cfg w so tr = (Inr (token, md), so', tr1) \<and>
          searchLoop w token (startYear b) (endYear b) (elements (artists b)) [] tr1
            = (Inr pool, tr2) \<and>
          pool \<noteq> [] \<and> NoItem \<notin> set pool \<and>
          me_api w tr2 (MeRequest token) = Response True (Parsed meData) \<and>
          playlist_api w (tr2 @ [MeRequest token])
              (CreatePlaylist token (me_id meData) (nameOrDefault (name b)) True)
            = Response True (Parsed playlistData)"
    then show "\<exists>uris. selectedUris w (songCount b) pool = Inr uris \<and>
                  length uris = min (nat n) (length pool) \<and>
                  snd (snd (generate cfg w b so tr))
                    = tr2 @ [MeRequest token,
                             CreatePlaylist token (me_id meData) (nameOrDefault (name b)) True,
                             AddTracks token (playlist_id playlistData) uris]"
      by (rule handler)
  next
    fix tok pid uris
    assume "AddTracks tok pid uris \<in> set (snd (snd (generate cfg w b so tr))) \<and>
          AddTracks tok pid uris \<notin> set tr"
    then show "\<exists>token md so' tr1 gathered tr2.
             getAccessToken cfg w so tr = (Inr (token, md), so', tr1) \<and>
             searchLoop w token (startYear b) (endYear b) (elements (artists b)) [] tr1
               = (Inr gathered, tr2) \<and>
             selectedUris w (songCount b) gathered = Inr uris \<and>
             length uris = min (nat n) (length gathered)"
      by (rule onward)
  qed
qed

theorem selectedUris_length_witness:
  "snd (snd (generate cfgDemo variedWorld threeArtists (Some newSession) []))
     = [TokenRequest ''id'' ''secret'' (RefreshTokenGrant ''service''),
        TrackSearch (Some ''fresh'') queenQuery 15, TrackSearch (Some ''fresh'') abbaQuery 15,
        TrackSearch (Some ''fresh'') kissQuery 15,
        MeRequest (Some ''fresh''),
        CreatePlaylist (Some ''fresh'') (Some ''me'') (JStr ''Road Trip'') True,
        AddTracks (Some ''fresh'') (Some ''p1'')
          [Some ''spotify:track:2'', Some ''spotify:track:2'']]
   \<and> length [Some ''spotify:track:2'', Some ''spotify:track:2'']
     = min (nat 2) (length [Item (Some ''spotify:track:1''), Item (Some ''spotify:track:2''),
                            Item (Some ''spotify:track:2'')])"
proof -
  let ?pool = "[Item (Some ''spotify:track:1''), Item (Some ''spotify:track:2''),
                Item (Some ''spotify:track:2'')]"
  let ?tr1 = "[TokenRequest ''id'' ''secret'' (RefreshTokenGrant ''service'')]"
  let ?tr2 = "[TokenRequest ''id'' ''secret'' (RefreshTokenGrant ''service''),
        TrackSearch (Some ''fresh'') queenQuery 15, TrackSearch (Some ''fresh'') abbaQuery 15,
        TrackSearch (Some ''fresh'') kissQuery 15]"
  let ?me = "\<lparr>me_id = Some ''me''\<rparr>"
  let ?pl = "\<lparr>playlist_id = Some ''p1'', playlist_name = Some ''Road Trip'',
            external_urls = Some (Some ''https://open.spotify.com/playlist/p1'')\<rparr>"
  have count: "countOrDefault (songCount threeArtists) = 2"
    by (simp add: threeArtists_def countOrDefault_def)
  have perm: "\<forall>xs. mset (shuffle variedWorld xs) = mset xs"
    by (simp add: variedWorld_def calmWorld_def)
  have le1: "(1::int) \<le> 2" and le2: "(2::int) \<le> 100"
    by simp_all
  have run: "\<not> missingFields threeArtists \<and>
      getAccessToken cfgDemo variedWorld (Some newSession) []
        = (Inr (Some ''fresh'', Demo), Some newSession, ?tr1) \<and>
      searchLoop variedWorld (Some ''fresh'') (startYear threeArtists) (endYear threeArtists)
          (elements (artists threeArtists)) [] ?tr1
        = (Inr ?pool, ?tr2) \<and>
      ?pool \<noteq> [] \<and> NoItem \<notin> set ?pool \<and>
      me_api variedWorld ?tr2 (MeRequest (Some ''fresh'')) = Response True (Parsed ?me) \<and>
      playlist_api variedWorld (?tr2 @ [MeRequest (Some ''fresh'')])
          (CreatePlaylist (Some ''fresh'') (me_id ?me) (nameOrDefault (name threeArtists)) True)
        = Response True (Parsed ?pl)"
    by (simp add: fixtures gen_defs)
  obtain uris where u: "selectedUris variedWorld (songCount threeArtists) ?pool = Inr uris"
      "length uris = min (nat 2) (length ?pool)"
      "snd (snd (generate cfgDemo variedWorld threeArtists (Some newSession) []))
         = ?tr2 @ [MeRequest (Some ''fresh''),
                   CreatePlaylist (Some ''fresh'') (me_id ?me) (nameOrDefault (name threeArtists)) True,
                   AddTracks (Some ''fresh'') (playlist_id ?pl) uris]"
    using selectedUris_length [OF count le1 le2 perm, of cfgDemo "Some newSession" "[]",
        THEN conjunct2, THEN conjunct2, THEN conjunct1, rule_format, OF run]
    by auto
  have "selectedUris variedWorld (songCount threeArtists) ?pool
      = Inr [Some ''spotify:track:2'', Some ''spotify:track:2'']"
    by (simp add: fixtures gen_defs)
  with u(1) have "uris = [Some ''spotify:track:2'', Some ''spotify:track:2'']"
    by simp
  with u(2,3) show ?thesis
    by (simp add: threeArtists_def)
qed

subsection \<open>The creation of the playlist\<close>

text \<open>
  A profile or a creation that fails ends the step with an error, which the handler
  turns into 500; the answer to the insertion of tracks, whatever it is, does not.
\<close>

lemma createPlaylist_profile_failure:
  assumes "\<forall>d. me_api w tr (MeRequest token) \<noteq> Response True (Parsed d)"
  shows "\<exists>e. createPlaylist w token md nm uris tr = (Inl e, tr @ [MeRequest token])"
  using assms
  by (auto simp: createPlaylist_def Let_def split: reply.splits body.splits)

lemma createPlaylist_creation_failure:
  assumes "me_api w tr (MeRequest token) = Response True (Parsed meData)"
    and "\<forall>d. playlist_api w (tr @ [MeRequest token])
              (CreatePlaylist token (me_id meData) (nameOrDefault nm) True)
            \<noteq> Response True (Parsed d)"
  shows "\<exists>e. createPlaylist w token md nm uris tr =
           (Inl e, tr @ [MeRequest token, CreatePlaylist token (me_id meData) (nameOrDefault nm) True])"
  using assms
  by (auto simp: createPlaylist_def Let_def split: reply.splits body.splits)

lemma createPlaylist_insertion_unchecked:
  assumes "me_api w tr (MeRequest token) = Response True (Parsed meData)"
    and "playlist_api w (tr @ [MeRequest token])
              (CreatePlaylist token (me_id meData) (nameOrDefault nm) True)
            = Response True (Parsed playlistData)"
    and "external_urls playlistData = Some url"
    and "add_api w (tr @ [MeRequest token, CreatePlaylist token (me_id meData) (nameOrDefault nm) True])
           (AddTracks token (playlist_id playlistData) uris) = Response ok3 b3"
  shows "createPlaylist w token md nm uris tr =
           (Inr (PlaylistBody url (playlist_name playlistData) md),
            tr @ [MeRequest token, CreatePlaylist token (me_id meData) (nameOrDefault nm) True,
                  AddTracks token (playlist_id playlistData) uris])"
  using assms
  by (simp add: createPlaylist_def Let_def)

text \<open>
  C7. The profile and the creation of the playlist are checked (lines 310 and 327); the
  response of the insertion of tracks (line 331) is awaited and never looked at. When
  the upstream refuses the insertion with a response that is not ok, the handler answers
  200 with the address of the playlist.
\<close>

theorem generate_ignores_add_failure:
  "add_api calmWorld
     [TokenRequest ''id'' ''secret'' (RefreshTokenGrant ''service''),
      TrackSearch (Some ''fresh'') (''artist:'' @ [CHR 0x22] @ ''Queen'' @ [CHR 0x22]) 15,
      MeRequest (Some ''fresh''),
      CreatePlaylist (Some ''fresh'') (Some ''me'') (JStr ''Road Trip'') True]
     (AddTracks (Some ''fresh'') (Some ''p1'') [Some ''spotify:track:1'']) = Response False (Parsed ())
   \<and> generate cfgDemo calmWorld roadTrip (Some newSession) []
   = (Json 200 (PlaylistBody (Some ''https://open.spotify.com/playlist/p1'') (Some ''Road Trip'') Demo),
      Some newSession,
      [TokenRequest ''id'' ''secret'' (RefreshTokenGrant ''service''),
       TrackSearch (Some ''fresh'') (''artist:'' @ [CHR 0x22] @ ''Queen'' @ [CHR 0x22]) 15,
       MeRequest (Some ''fresh''),
       CreatePlaylist (Some ''fresh'') (Some ''me'') (JStr ''Road Trip'') True,
       AddTracks (Some ''fresh'') (Some ''p1'') [Some ''spotify:track:1'']])"
  by (simp add: fixtures gen_defs)

subsection \<open>The name of the playlist\<close>

text \<open>
  C10. A request whose \<open>name\<close> is absent or falsy (\<^verbatim>\<open>null\<close>, \<^verbatim>\<open>false\<close>, 0, the empty
  string) is answered with 400 and the trace of upstream calls is unchanged. Every
  creation of a playlist that the handler issues carries the \<open>name\<close> of the request,
  which is truthy: the default \<^verbatim>\<open>'New Vibe Playlist'\<close> of line 321 is never used.
\<close>

theorem generate_name_required:
  "(\<not> truthy (name b) \<longrightarrow>
      generate cfg w b so tr =
        (Json 400 (ErrorBody ''Invalid request: name and artists are required''), so, tr))
   \<and> (\<forall>tok uid nm pub.
        CreatePlaylist tok uid nm pub \<in> set (snd (snd (generate cfg w b so tr))) \<and>
        CreatePlaylist tok uid nm pub \<notin> set tr \<longrightarrow>
        name b = Some nm \<and> truthy (name b))"
proof (rule conjI)
  show "\<not> truthy (name b) \<longrightarrow>
      generate cfg w b so tr =
        (Json 400 (ErrorBody ''Invalid request: name and artists are required''), so, tr)"
    by (simp add: generate_def missingFields_def)
next
  show "\<forall>tok uid nm pub.
        CreatePlaylist tok uid nm pub \<in> set (snd (snd (generate cfg w b so tr))) \<and>
        CreatePlaylist tok uid nm pub \<notin> set tr \<longrightarrow>
        name b = Some nm \<and> truthy (name b)"
  proof (intro allI impI)
    fix tok uid nm pub
    let ?c = "CreatePlaylist tok uid nm pub"
    assume a: "?c \<in> set (snd (snd (generate cfg w b so tr))) \<and> ?c \<notin> set tr"
    obtain n1 n2 n3 where d: "snd (snd (generate cfg w b so tr)) = tr @ n1 @ n2 @ n3"
        "list_all isTokenRequest n1" "list_all isTrackSearch n2"
        "n3 = [] \<or> (\<not> missingFields b \<and>
          (\<exists>token md so' pool uris.
              getAccessToken cfg w so tr = (Inr (token, md), so', tr @ n1) \<and>
              searchLoop w token (startYear b) (endYear b) (elements (artists b)) [] (tr @ n1)
                = (Inr pool, tr @ n1 @ n2) \<and>
              selectedUris w (songCount b) pool = Inr uris \<and>
              list_all (fromCreate (nameOrDefault (name b)) uris) n3))"
      using generate_calls [of cfg w b so tr] by blast
    have "?c \<notin> set n1" using d(2) by (auto simp: list_all_iff)
    moreover have "?c \<notin> set n2" using d(3) by (auto simp: list_all_iff)
    ultimately have in3: "?c \<in> set n3" using a d(1) by auto
    then have "n3 \<noteq> []" by auto
    with d(4) obtain uris where v: "\<not> missingFields b"
        "list_all (fromCreate (nameOrDefault (name b)) uris) n3"
      by blast
    from v(2) in3 have "nm = nameOrDefault (name b)" by (auto simp: list_all_iff)
    moreover from v(1) have t: "truthy (name b)" by (simp add: missingFields_def)
    ultimately show "name b = Some nm \<and> truthy (name b)"
      using nameOrDefault_truthy by blast
  qed
qed

theorem generate_name_required_witness:
  "generate cfgDemo calmWorld (roadTrip\<lparr>name := Some (JStr [])\<rparr>) (Some newSession) []
     = (Json 400 (ErrorBody ''Invalid request: name and artists are required''), Some newSession, [])
   \<and> CreatePlaylist (Some ''fresh'') (Some ''me'') (JStr ''Road Trip'') True
        \<in> set (snd (snd (generate cfgDemo calmWorld roadTrip (Some newSession) [])))
   \<and> name roadTrip = Some (JStr ''Road Trip'') \<and> truthy (name roadTrip)"
proof -
  have g: "snd (snd (generate cfgDemo calmWorld roadTrip (Some newSession) [])) =
      [TokenRequest ''id'' ''secret'' (RefreshTokenGrant ''service''),
       TrackSearch (Some ''fresh'') (''artist:'' @ [CHR 0x22] @ ''Queen'' @ [CHR 0x22]) 15,
       MeRequest (Some ''fresh''),
       CreatePlaylist (Some ''fresh'') (Some ''me'') (JStr ''Road Trip'') True,
       AddTracks (Some ''fresh'') (Some ''p1'') [Some ''spotify:track:1'']]"
    by (simp add: fixtures gen_defs)
  have m: "CreatePlaylist (Some ''fresh'') (Some ''me'') (JStr ''Road Trip'') True
        \<in> set (snd (snd (generate cfgDemo calmWorld roadTrip (Some newSession) [])))"
    unfolding g by simp
  have f: "\<not> truthy (name (roadTrip\<lparr>name := Some (JStr [])\<rparr>))"
    by simp
  have one: "generate cfgDemo calmWorld (roadTrip\<lparr>name := Some (JStr [])\<rparr>) (Some newSession) []
     = (Json 400 (ErrorBody ''Invalid request: name and artists are required''), Some newSession, [])"
    using generate_name_required
        [of "roadTrip\<lparr>name := Some (JStr [])\<rparr>" cfgDemo calmWorld "Some newSession" "[]",
         THEN conjunct1] f
    by (rule mp)
  have two: "name roadTrip = Some (JStr ''Road Trip'') \<and> truthy (name roadTrip)"
    using generate_name_required
        [of roadTrip cfgDemo calmWorld "Some newSession" "[]", THEN conjunct2, rule_format,
         of "Some ''fresh''" "Some ''me''" "JStr ''Road Trip''" True] m
    by simp
  show ?thesis
    using one m two by blast
qed

end
